theory Spec2Isabelle
  imports Main
begin

section \<open>The values the contract handles\<close>

text \<open>
  The contract of \<^verbatim>\<open>assetContract.ts\<close> keeps one JSON text per asset key in the
  ledger and one key-level endorsement policy beside it. Its arguments are JavaScript
  strings and numbers.

  A JavaScript \<^verbatim>\<open>number\<close> is modelled by its JSON-relevant cases: the integer-valued
  finite numbers (\<open>Finite i\<close>; negative zero is identified with zero, as \<^verbatim>\<open>===\<close>
  does), and the three non-finite numbers. \<^verbatim>\<open>Number::toString\<close> prints the digits of
  \<open>i\<close> itself for a safe integer, \<open>\<bar>i\<bar> < 2^53\<close>; beyond that it prints the shortest
  digits that read back as the same number, which the model does not compute: there
  the printed text of the model differs from the program's, the number read back
  does not. The decimal rendering of a fractional number is floating point and is
  left out. A string is a list of code units below \<open>0x100\<close>.
\<close>

datatype number = Finite int | NaN | PosInfinity | NegInfinity

text \<open>
  What a field declared \<^verbatim>\<open>Value: number\<close> holds at run time: a number, or the
  \<^verbatim>\<open>null\<close> that \<^verbatim>\<open>JSON.parse\<close> returns for the literal \<^verbatim>\<open>null\<close> (the cast
  \<^verbatim>\<open>as Asset\<close> is not checked).
\<close>

datatype numeric = Number number | Null

text \<open>
  Modelled from the spec: the class \<^verbatim>\<open>Asset\<close> of \<^verbatim>\<open>./asset\<close>, which the contract
  imports and which is not among the sources. The spec gives it a string field \<open>ID\<close>, a
  numeric field \<open>Value\<close> and string fields \<open>Owner\<close> and \<open>OwnerOrg\<close>; the contract assigns
  them in this order.
\<close>

record Asset =
  ID :: string
  Value :: numeric
  Owner :: string
  OwnerOrg :: string

datatype error = Error string | SyntaxError | TypeError

section \<open>\<^verbatim>\<open>JSON.stringify\<close> of an asset\<close>

abbreviation dquote :: char where
  "dquote \<equiv> CHR 0x22"

abbreviation backslash :: char where
  "backslash \<equiv> CHR 0x5C"

definition hex_digit :: "nat \<Rightarrow> char" where
  "hex_digit n = (if n < 10 then char_of (48 + n) else char_of (87 + n))"

text \<open>
  \<^verbatim>\<open>QuoteJSONString\<close>: the seven characters with a short escape, then every other code
  unit below \<open>0x20\<close> as \<^verbatim>\<open>\u00xx\<close> in lower-case hexadecimal, everything else as it is.
\<close>

definition QuoteJSONChar :: "char \<Rightarrow> string" where
  "QuoteJSONChar c =
     (if c = CHR 0x08 then [backslash, CHR ''b'']
      else if c = CHR 0x09 then [backslash, CHR ''t'']
      else if c = CHR 0x0A then [backslash, CHR ''n'']
      else if c = CHR 0x0C then [backslash, CHR ''f'']
      else if c = CHR 0x0D then [backslash, CHR ''r'']
      else if c = dquote then [backslash, dquote]
      else if c = backslash then [backslash, backslash]
      else if (of_char c :: nat) < 32 then
        [backslash, CHR ''u'', CHR ''0'', CHR ''0'',
         hex_digit (of_char c div 16), hex_digit (of_char c mod 16)]
      else [c])"

definition QuoteJSONString :: "string \<Rightarrow> string" where
  "QuoteJSONString s = dquote # concat (map QuoteJSONChar s) @ [dquote]"

definition digit_char :: "nat \<Rightarrow> char" where
  "digit_char d = char_of (48 + d)"

function nat_digits :: "nat \<Rightarrow> string" where
  "nat_digits n =
     (if n < 10 then [digit_char n] else nat_digits (n div 10) @ [digit_char (n mod 10)])"
  by pat_completeness auto
termination
  by (relation "measure id") auto

definition Number_toString :: "int \<Rightarrow> string" where
  "Number_toString i = (if i < 0 then CHR ''-'' # nat_digits (nat (- i)) else nat_digits (nat i))"

text \<open>
  \<^verbatim>\<open>SerializeJSONProperty\<close> for a number or \<^verbatim>\<open>null\<close>: a finite number is printed,
  every other number is written as \<^verbatim>\<open>null\<close>.
\<close>

fun SerializeJSONNumber :: "numeric \<Rightarrow> string" where
  "SerializeJSONNumber Null = ''null''"
| "SerializeJSONNumber (Number (Finite i)) = Number_toString i"
| "SerializeJSONNumber (Number NaN) = ''null''"
| "SerializeJSONNumber (Number PosInfinity) = ''null''"
| "SerializeJSONNumber (Number NegInfinity) = ''null''"

definition JSON_stringify :: "Asset \<Rightarrow> string" where
  "JSON_stringify asset =
     ''{'' @ QuoteJSONString ''ID'' @ '':'' @ QuoteJSONString (ID asset)
     @ '','' @ QuoteJSONString ''Value'' @ '':'' @ SerializeJSONNumber (Value asset)
     @ '','' @ QuoteJSONString ''Owner'' @ '':'' @ QuoteJSONString (Owner asset)
     @ '','' @ QuoteJSONString ''OwnerOrg'' @ '':'' @ QuoteJSONString (OwnerOrg asset)
     @ ''}''"

section \<open>\<^verbatim>\<open>JSON.parse\<close> of an asset text\<close>

text \<open>
  The contract parses only what it has stored, and casts the result to \<^verbatim>\<open>Asset\<close>. The
  model of \<^verbatim>\<open>JSON.parse\<close> reads the texts of that shape: one object with the members
  \<open>ID\<close>, \<open>Value\<close>, \<open>Owner\<close>, \<open>OwnerOrg\<close> in this order, strings with every JSON escape, an
  integer literal or \<^verbatim>\<open>null\<close> for \<open>Value\<close>, no insignificant white space. On any other
  text it answers \<open>SyntaxError\<close>; that is exact for a text that is not JSON and
  leaves a JSON text of another shape out of the model (so are an escape
  \<^verbatim>\<open>\uXXXX\<close> above \<open>0x00FF\<close> and a literal with a fraction or an exponent). Every
  text the contract stores has the shape that is read.
\<close>

fun expect :: "string \<Rightarrow> string \<Rightarrow> string option" where
  "expect [] t = Some t"
| "expect (c # cs) [] = None"
| "expect (c # cs) (d # ds) = (if c = d then expect cs ds else None)"

definition hex_value :: "char \<Rightarrow> nat option" where
  "hex_value c =
     (let n = (of_char c :: nat) in
      if 48 \<le> n \<and> n \<le> 57 then Some (n - 48)
      else if 97 \<le> n \<and> n \<le> 102 then Some (n - 87)
      else if 65 \<le> n \<and> n \<le> 70 then Some (n - 55)
      else None)"

definition unescape :: "char \<Rightarrow> char option" where
  "unescape e =
     (if e = dquote then Some dquote
      else if e = backslash then Some backslash
      else if e = CHR ''/'' then Some CHR ''/''
      else if e = CHR ''b'' then Some (CHR 0x08)
      else if e = CHR ''f'' then Some (CHR 0x0C)
      else if e = CHR ''n'' then Some (CHR 0x0A)
      else if e = CHR ''r'' then Some (CHR 0x0D)
      else if e = CHR ''t'' then Some (CHR 0x09)
      else None)"

definition unicode_escape :: "char \<Rightarrow> char \<Rightarrow> char \<Rightarrow> char \<Rightarrow> char option" where
  "unicode_escape h1 h2 h3 h4 =
     (case (hex_value h1, hex_value h2, hex_value h3, hex_value h4) of
        (Some a, Some b, Some c, Some d) \<Rightarrow>
          (if a = 0 \<and> b = 0 then Some (char_of (16 * c + d)) else None)
      | _ \<Rightarrow> None)"

definition cons_result :: "char \<Rightarrow> (string \<times> string) option \<Rightarrow> (string \<times> string) option" where
  "cons_result c r = (case r of None \<Rightarrow> None | Some (s, rest) \<Rightarrow> Some (c # s, rest))"

text \<open>The characters of a string literal after its opening quote, up to the closing one.\<close>

fun parse_string_chars :: "string \<Rightarrow> (string \<times> string) option" where
  "parse_string_chars [] = None"
| "parse_string_chars (c # cs) =
     (if c = dquote then Some ([], cs)
      else if c = backslash then
        (case cs of
           [] \<Rightarrow> None
         | e # r \<Rightarrow>
             (if e = CHR ''u'' then
                (case r of
                   h1 # h2 # h3 # h4 # r' \<Rightarrow>
                     (case unicode_escape h1 h2 h3 h4 of
                        None \<Rightarrow> None
                      | Some d \<Rightarrow> cons_result d (parse_string_chars r'))
                 | _ \<Rightarrow> None)
              else
                (case unescape e of
                   None \<Rightarrow> None
                 | Some d \<Rightarrow> cons_result d (parse_string_chars r))))
      else if (of_char c :: nat) < 32 then None
      else cons_result c (parse_string_chars cs))"

definition parse_JSONString :: "string \<Rightarrow> (string \<times> string) option" where
  "parse_JSONString t =
     (case t of [] \<Rightarrow> None | c # cs \<Rightarrow> if c = dquote then parse_string_chars cs else None)"

definition is_digit :: "char \<Rightarrow> bool" where
  "is_digit c = (48 \<le> (of_char c :: nat) \<and> (of_char c :: nat) \<le> 57)"

definition digits_value :: "string \<Rightarrow> nat" where
  "digits_value ds = foldl (\<lambda>a c. 10 * a + (of_char c - 48)) 0 ds"

definition parse_digits :: "string \<Rightarrow> (nat \<times> string) option" where
  "parse_digits t =
     (let ds = takeWhile is_digit t in
      if ds = [] \<or> (hd ds = CHR ''0'' \<and> 1 < length ds) then None
      else Some (digits_value ds, dropWhile is_digit t))"

definition parse_JSONNumber :: "string \<Rightarrow> (numeric \<times> string) option" where
  "parse_JSONNumber t =
     (case expect ''null'' t of
        Some r \<Rightarrow> Some (Null, r)
      | None \<Rightarrow>
          (case t of
             [] \<Rightarrow> None
           | c # cs \<Rightarrow>
               (if c = CHR ''-'' then
                  (case parse_digits cs of
                     None \<Rightarrow> None
                   | Some (n, r) \<Rightarrow> Some (Number (Finite (- int n)), r))
                else
                  (case parse_digits t of
                     None \<Rightarrow> None
                   | Some (n, r) \<Rightarrow> Some (Number (Finite (int n)), r)))))"

definition parse_member_string :: "string \<Rightarrow> string \<Rightarrow> (string \<times> string) option" where
  "parse_member_string name t =
     (case expect (QuoteJSONString name @ '':'') t of
        None \<Rightarrow> None
      | Some r \<Rightarrow> parse_JSONString r)"

definition parse_member_number :: "string \<Rightarrow> string \<Rightarrow> (numeric \<times> string) option" where
  "parse_member_number name t =
     (case expect (QuoteJSONString name @ '':'') t of
        None \<Rightarrow> None
      | Some r \<Rightarrow> parse_JSONNumber r)"

definition parse_Asset :: "string \<Rightarrow> Asset option" where
  "parse_Asset t =
     (case expect ''{'' t of None \<Rightarrow> None | Some t1 \<Rightarrow>
     (case parse_member_string ''ID'' t1 of None \<Rightarrow> None | Some (i, t2) \<Rightarrow>
     (case expect '','' t2 of None \<Rightarrow> None | Some t3 \<Rightarrow>
     (case parse_member_number ''Value'' t3 of None \<Rightarrow> None | Some (v, t4) \<Rightarrow>
     (case expect '','' t4 of None \<Rightarrow> None | Some t5 \<Rightarrow>
     (case parse_member_string ''Owner'' t5 of None \<Rightarrow> None | Some (ow, t6) \<Rightarrow>
     (case expect '','' t6 of None \<Rightarrow> None | Some t7 \<Rightarrow>
     (case parse_member_string ''OwnerOrg'' t7 of None \<Rightarrow> None | Some (og, t8) \<Rightarrow>
      if t8 = ''}'' then Some \<lparr>ID = i, Value = v, Owner = ow, OwnerOrg = og\<rparr>
      else None))))))))"

definition JSON_parse :: "string \<Rightarrow> error + Asset" where
  "JSON_parse t = (case parse_Asset t of None \<Rightarrow> Inl SyntaxError | Some a \<Rightarrow> Inr a)"

text \<open>
  What comes back for a \<open>Value\<close> that went through \<^verbatim>\<open>JSON.stringify\<close> and
  \<^verbatim>\<open>JSON.parse\<close>: a finite number and \<^verbatim>\<open>null\<close> as they were, every other number
  as \<^verbatim>\<open>null\<close>.
\<close>

definition json_value :: "numeric \<Rightarrow> numeric" where
  "json_value v = (case v of Number (Finite i) \<Rightarrow> Number (Finite i) | _ \<Rightarrow> Null)"


section \<open>The ledger as the contract sees it\<close>

text \<open>
  \<^verbatim>\<open>Buffer.from(text)\<close> and \<^verbatim>\<open>buffer.toString()\<close> carry a text into the ledger and
  back as UTF-8. \<^verbatim>\<open>JSON.stringify\<close> never writes a lone surrogate, so the transport
  loses nothing, and a buffer is empty exactly when its text is: a buffer is modelled
  by the text it carries.
\<close>

type_synonym buffer = string

definition Buffer_from :: "string \<Rightarrow> buffer" where
  "Buffer_from text = text"

definition toString :: "buffer \<Rightarrow> string" where
  "toString b = b"

text \<open>
  \<^verbatim>\<open>KeyEndorsementPolicy\<close> of \<^verbatim>\<open>fabric-shim\<close> keeps a plain JavaScript object
  \<^verbatim>\<open>this.orgs\<close> from organization to role, modelled by its own properties in the
  order of their creation. \<^verbatim>\<open>addOrgs\<close> throws on a role name it does not know and
  otherwise assigns \<^verbatim>\<open>this.orgs[neworg] = role\<close> for each organization. The role is
  a number, and assigning a number to the key \<^verbatim>\<open>__proto__\<close> of a plain object
  reaches the accessor of \<^verbatim>\<open>Object.prototype\<close>, which ignores it: the object gets
  no own key. \<^verbatim>\<open>getPolicy\<close> takes the organizations from \<^verbatim>\<open>Object.keys\<close>, which
  lists the keys that are array indices first, in ascending order, then the other
  keys in the order of their creation, and builds the signature policy with one
  principal for each of them and the rule that all of them sign (n out of n).
\<close>

datatype MSPRoleType = MEMBER | PEER

record KeyEndorsementPolicy =
  orgs :: "(string \<times> MSPRoleType) list"

record SignaturePolicyEnvelope =
  n_out_of :: nat
  identities :: "(string \<times> MSPRoleType) list"

definition new_KeyEndorsementPolicy :: KeyEndorsementPolicy where
  "new_KeyEndorsementPolicy = \<lparr>orgs = []\<rparr>"

text \<open>Creating or overwriting an own property.\<close>

fun put_property :: "string \<Rightarrow> 'a \<Rightarrow> (string \<times> 'a) list \<Rightarrow> (string \<times> 'a) list" where
  "put_property key v [] = [(key, v)]"
| "put_property key v ((k, w) # rest) =
     (if k = key then (key, v) # rest else (k, w) # put_property key v rest)"

text \<open>\<^verbatim>\<open>this.orgs[neworg] = role\<close>.\<close>

definition set_org :: "string \<Rightarrow> MSPRoleType \<Rightarrow> (string \<times> MSPRoleType) list \<Rightarrow> (string \<times> MSPRoleType) list" where
  "set_org org r m = (if org = ''__proto__'' then m else put_property org r m)"

definition addOrgs :: "string \<Rightarrow> string list \<Rightarrow> KeyEndorsementPolicy \<Rightarrow> error + KeyEndorsementPolicy" where
  "addOrgs role neworgs ep =
     (if role = ''MEMBER'' then
        Inr (ep\<lparr>orgs := fold (\<lambda>neworg m. set_org neworg MEMBER m) neworgs (orgs ep)\<rparr>)
      else if role = ''PEER'' then
        Inr (ep\<lparr>orgs := fold (\<lambda>neworg m. set_org neworg PEER m) neworgs (orgs ep)\<rparr>)
      else Inl (Error (''role type '' @ role @ '' does not exist'')))"

text \<open>
  An array index is the decimal text, without a leading zero, of an integer below
  \<open>2^32 - 1\<close>.
\<close>

definition is_array_index :: "string \<Rightarrow> bool" where
  "is_array_index key =
     (key \<noteq> [] \<and> list_all is_digit key \<and> \<not> (hd key = CHR ''0'' \<and> 1 < length key)
      \<and> int (digits_value key) < 4294967295)"

text \<open>The own properties in the order in which \<^verbatim>\<open>Object.keys\<close> lists their keys.\<close>

definition Object_entries :: "(string \<times> 'a) list \<Rightarrow> (string \<times> 'a) list" where
  "Object_entries m =
     sort_key (\<lambda>e. digits_value (fst e)) (filter (\<lambda>e. is_array_index (fst e)) m)
     @ filter (\<lambda>e. \<not> is_array_index (fst e)) m"

definition listOrgs :: "KeyEndorsementPolicy \<Rightarrow> string list" where
  "listOrgs ep = map fst (Object_entries (orgs ep))"

definition getPolicy :: "KeyEndorsementPolicy \<Rightarrow> SignaturePolicyEnvelope" where
  "getPolicy ep =
     \<lparr>n_out_of = length (listOrgs ep), identities = Object_entries (orgs ep)\<rparr>"

text \<open>
  How the platform evaluates such a policy: at least \<open>n_out_of\<close> of its principals
  are among the organizations that endorsed.
\<close>

definition satisfied_by :: "SignaturePolicyEnvelope \<Rightarrow> string list \<Rightarrow> bool" where
  "satisfied_by p endorsers =
     (n_out_of p \<le> length (filter (\<lambda>(org, r). org \<in> set endorsers) (identities p)))"

text \<open>
  The stub of one transaction: the committed world state and key metadata that
  \<^verbatim>\<open>getState\<close> reads, and the write set that \<^verbatim>\<open>putState\<close>, \<^verbatim>\<open>deleteState\<close> and
  \<^verbatim>\<open>setStateValidationParameter\<close> extend. The calls of the ledger adapter do not
  fail (the spec gives them no failure).
\<close>

datatype kv_write =
    PutState string buffer
  | DeleteState string
  | SetStateValidationParameter string SignaturePolicyEnvelope

record ChaincodeStub =
  state :: "string \<rightharpoonup> buffer"
  validation :: "string \<rightharpoonup> SignaturePolicyEnvelope"
  writeset :: "kv_write list"

record Context =
  stub :: ChaincodeStub
  clientIdentity :: string

definition getState :: "ChaincodeStub \<Rightarrow> string \<Rightarrow> buffer option" where
  "getState s key = state s key"

definition putState :: "ChaincodeStub \<Rightarrow> string \<Rightarrow> buffer \<Rightarrow> ChaincodeStub" where
  "putState s key v = s\<lparr>writeset := writeset s @ [PutState key v]\<rparr>"

definition deleteState :: "ChaincodeStub \<Rightarrow> string \<Rightarrow> ChaincodeStub" where
  "deleteState s key = s\<lparr>writeset := writeset s @ [DeleteState key]\<rparr>"

definition setStateValidationParameter ::
  "ChaincodeStub \<Rightarrow> string \<Rightarrow> SignaturePolicyEnvelope \<Rightarrow> ChaincodeStub" where
  "setStateValidationParameter s key ep =
     s\<lparr>writeset := writeset s @ [SetStateValidationParameter key ep]\<rparr>"

section \<open>The contract\<close>

text \<open>
  The methods of \<^verbatim>\<open>AssetContract\<close>, each from a context to its result, a value or
  the error it throws, and the context it leaves. The two errors the contract throws
  itself carry its messages. The parameter \<^verbatim>\<open>value\<close> of \<^verbatim>\<open>CreateAsset\<close> is written
  \<open>val\<close>.
\<close>

definition NotFound :: "string \<Rightarrow> error" where
  "NotFound assetId = Error (''The asset '' @ assetId @ '' does not exist'')"

definition AlreadyExists :: "string \<Rightarrow> error" where
  "AlreadyExists assetId = Error (''The asset '' @ assetId @ '' already exists'')"

definition AssetExists :: "Context \<Rightarrow> string \<Rightarrow> (error + bool) \<times> Context" where
  "AssetExists ctx assetId =
     (let buffer = getState (stub ctx) assetId in
      (Inr (case buffer of None \<Rightarrow> False | Some b \<Rightarrow> 0 < length b), ctx))"

definition setAssetStateBasedEndorsement ::
  "Context \<Rightarrow> string \<Rightarrow> string list \<Rightarrow> (error + unit) \<times> Context" where
  "setAssetStateBasedEndorsement ctx assetId ownerOrgs =
     (case addOrgs ''MEMBER'' ownerOrgs new_KeyEndorsementPolicy of
        Inl e \<Rightarrow> (Inl e, ctx)
      | Inr ep \<Rightarrow>
          (Inr (), ctx\<lparr>stub := setStateValidationParameter (stub ctx) assetId (getPolicy ep)\<rparr>))"

definition getClientOrgId :: "Context \<Rightarrow> string" where
  "getClientOrgId ctx = clientIdentity ctx"

definition CreateAsset ::
  "Context \<Rightarrow> string \<Rightarrow> number \<Rightarrow> string \<Rightarrow> (error + unit) \<times> Context" where
  "CreateAsset ctx assetId val owner =
     (case AssetExists ctx assetId of
        (Inl e, ctx1) \<Rightarrow> (Inl e, ctx1)
      | (Inr exists, ctx1) \<Rightarrow>
          (if exists then (Inl (AlreadyExists assetId), ctx1)
           else
             (let ownerOrg = getClientOrgId ctx1;
                  asset = \<lparr>ID = assetId, Value = Number val, Owner = owner, OwnerOrg = ownerOrg\<rparr>;
                  buffer = Buffer_from (JSON_stringify asset);
                  ctx2 = ctx1\<lparr>stub := putState (stub ctx1) assetId buffer\<rparr>
              in setAssetStateBasedEndorsement ctx2 (ID asset) [ownerOrg])))"

definition ReadAsset :: "Context \<Rightarrow> string \<Rightarrow> (error + string) \<times> Context" where
  "ReadAsset ctx assetId =
     (case AssetExists ctx assetId of
        (Inl e, ctx1) \<Rightarrow> (Inl e, ctx1)
      | (Inr exists, ctx1) \<Rightarrow>
          (if \<not> exists then (Inl (NotFound assetId), ctx1)
           else
             (case getState (stub ctx1) assetId of
                None \<Rightarrow> (Inl TypeError, ctx1)
              | Some assetJSON \<Rightarrow> (Inr (toString assetJSON), ctx1))))"

definition UpdateAsset :: "Context \<Rightarrow> string \<Rightarrow> number \<Rightarrow> (error + unit) \<times> Context" where
  "UpdateAsset ctx assetId newValue =
     (case ReadAsset ctx assetId of
        (Inl e, ctx1) \<Rightarrow> (Inl e, ctx1)
      | (Inr assetString, ctx1) \<Rightarrow>
          (case JSON_parse assetString of
             Inl e \<Rightarrow> (Inl e, ctx1)
           | Inr parsed \<Rightarrow>
               (let asset = parsed\<lparr>Value := Number newValue\<rparr>;
                    buffer = Buffer_from (JSON_stringify asset)
                in (Inr (), ctx1\<lparr>stub := putState (stub ctx1) assetId buffer\<rparr>))))"

definition DeleteAsset :: "Context \<Rightarrow> string \<Rightarrow> (error + unit) \<times> Context" where
  "DeleteAsset ctx assetId =
     (case AssetExists ctx assetId of
        (Inl e, ctx1) \<Rightarrow> (Inl e, ctx1)
      | (Inr exists, ctx1) \<Rightarrow>
          (if \<not> exists then (Inl (NotFound assetId), ctx1)
           else (Inr (), ctx1\<lparr>stub := deleteState (stub ctx1) assetId\<rparr>)))"

definition TransferAsset ::
  "Context \<Rightarrow> string \<Rightarrow> string \<Rightarrow> string \<Rightarrow> (error + unit) \<times> Context" where
  "TransferAsset ctx assetId newOwner newOwnerOrg =
     (case ReadAsset ctx assetId of
        (Inl e, ctx1) \<Rightarrow> (Inl e, ctx1)
      | (Inr assetString, ctx1) \<Rightarrow>
          (case JSON_parse assetString of
             Inl e \<Rightarrow> (Inl e, ctx1)
           | Inr parsed \<Rightarrow>
               (let asset = parsed\<lparr>Owner := newOwner, OwnerOrg := newOwnerOrg\<rparr>;
                    ctx2 = ctx1\<lparr>stub := putState (stub ctx1) assetId
                                            (Buffer_from (JSON_stringify asset))\<rparr>
                in setAssetStateBasedEndorsement ctx2 (ID asset) [newOwnerOrg])))"

section \<open>Transactions\<close>

text \<open>
  One invocation is one transaction: the contract runs on a stub with an empty write
  set; when it returns, the write set is applied to the ledger in order, and when it
  throws, nothing is applied. Deleting a key removes its value; the contract writes
  no validation parameter then, and the model keeps the one the key had.
\<close>

fun apply_write :: "kv_write \<Rightarrow> ChaincodeStub \<Rightarrow> ChaincodeStub" where
  "apply_write (PutState key v) s = s\<lparr>state := (state s)(key \<mapsto> v)\<rparr>"
| "apply_write (DeleteState key) s = s\<lparr>state := (state s)(key := None)\<rparr>"
| "apply_write (SetStateValidationParameter key ep) s =
     s\<lparr>validation := (validation s)(key \<mapsto> ep)\<rparr>"

definition commit :: "ChaincodeStub \<Rightarrow> ChaincodeStub" where
  "commit s = fold apply_write (writeset s) (s\<lparr>writeset := []\<rparr>)"

datatype call =
    Create string number string
  | Read string
  | Update string number
  | Delete string
  | Transfer string string string
  | Exists string

datatype response = Void | Text string | Boolean bool

definition respond :: "('a \<Rightarrow> response) \<Rightarrow> (error + 'a) \<times> Context \<Rightarrow> (error + response) \<times> Context" where
  "respond f r = (case r of (Inl e, ctx) \<Rightarrow> (Inl e, ctx) | (Inr x, ctx) \<Rightarrow> (Inr (f x), ctx))"

fun dispatch :: "Context \<Rightarrow> call \<Rightarrow> (error + response) \<times> Context" where
  "dispatch ctx (Create assetId val owner) = respond (\<lambda>_. Void) (CreateAsset ctx assetId val owner)"
| "dispatch ctx (Read assetId) = respond Text (ReadAsset ctx assetId)"
| "dispatch ctx (Update assetId newValue) = respond (\<lambda>_. Void) (UpdateAsset ctx assetId newValue)"
| "dispatch ctx (Delete assetId) = respond (\<lambda>_. Void) (DeleteAsset ctx assetId)"
| "dispatch ctx (Transfer assetId newOwner newOwnerOrg) =
     respond (\<lambda>_. Void) (TransferAsset ctx assetId newOwner newOwnerOrg)"
| "dispatch ctx (Exists assetId) = respond Boolean (AssetExists ctx assetId)"

definition invoke :: "ChaincodeStub \<Rightarrow> string \<Rightarrow> call \<Rightarrow> (error + response) \<times> ChaincodeStub" where
  "invoke ledger mspid c =
     (case dispatch \<lparr>stub = ledger\<lparr>writeset := []\<rparr>, clientIdentity = mspid\<rparr> c of
        (Inl e, ctx) \<Rightarrow> (Inl e, ledger)
      | (Inr r, ctx) \<Rightarrow> (Inr r, commit (stub ctx)))"

definition genesis :: ChaincodeStub where
  "genesis = \<lparr>state = Map.empty, validation = Map.empty, writeset = []\<rparr>"

text \<open>A sequence of transactions, each sent by a client of some organization.\<close>

fun transactions :: "ChaincodeStub \<Rightarrow> (string \<times> call) list \<Rightarrow> error + ChaincodeStub" where
  "transactions ledger [] = Inr ledger"
| "transactions ledger ((mspid, c) # cs) =
     (case invoke ledger mspid c of
        (Inl e, _) \<Rightarrow> Inl e
      | (Inr _, ledger') \<Rightarrow> transactions ledger' cs)"

text \<open>The record stored under a key, when the key holds the text of one.\<close>

definition stored_asset :: "ChaincodeStub \<Rightarrow> string \<Rightarrow> Asset option" where
  "stored_asset s key =
     (case getState s key of
        None \<Rightarrow> None
      | Some b \<Rightarrow> (case JSON_parse (toString b) of Inl e \<Rightarrow> None | Inr a \<Rightarrow> Some a))"

section \<open>The policy of one organization, and the ledgers the contract builds\<close>

text \<open>The policy that names one organization: one principal, one signature required.\<close>

definition single_org :: "string \<Rightarrow> SignaturePolicyEnvelope" where
  "single_org org = \<lparr>n_out_of = 1, identities = [(org, MEMBER)]\<rparr>"

text \<open>
  The policy that the contract installs for an owning organization: the policy that
  names it, except for the one string that \<^verbatim>\<open>this.orgs\<close> does not keep, for which
  the policy has no principal and requires nothing.
\<close>

definition owner_policy :: "string \<Rightarrow> SignaturePolicyEnvelope" where
  "owner_policy org =
     (if org = ''__proto__'' then \<lparr>n_out_of = 0, identities = []\<rparr> else single_org org)"

text \<open>
  A ledger between transactions is consistent when its write set is empty and every
  key with a non-empty value holds the text of an asset whose \<open>ID\<close> is the key and
  whose \<open>OwnerOrg\<close> is the organization that the key's policy was built for.
\<close>

definition consistent :: "ChaincodeStub \<Rightarrow> bool" where
  "consistent ledger =
     (writeset ledger = [] \<and>
      (\<forall>key b. state ledger key = Some b \<and> b \<noteq> [] \<longrightarrow>
         (\<exists>a. parse_Asset b = Some a \<and> ID a = key
              \<and> validation ledger key = Some (owner_policy (OwnerOrg a)))))"

section \<open>Concrete ledgers\<close>

definition asset1 :: Asset where
  "asset1 = \<lparr>ID = ''asset1'', Value = Number (Finite 100), Owner = ''Alice'', OwnerOrg = ''Org1MSP''\<rparr>"

definition ctx_genesis :: Context where
  "ctx_genesis = \<lparr>stub = genesis, clientIdentity = ''Org1MSP''\<rparr>"

definition ledger_asset1 :: ChaincodeStub where
  "ledger_asset1 = snd (invoke genesis ''Org1MSP'' (Create ''asset1'' (Finite 100) ''Alice''))"

definition ctx_asset1 :: Context where
  "ctx_asset1 = \<lparr>stub = ledger_asset1, clientIdentity = ''Org2MSP''\<rparr>"

definition ctx_owner :: Context where
  "ctx_owner = \<lparr>stub = ledger_asset1, clientIdentity = ''Org1MSP''\<rparr>"

definition ledger_proto :: ChaincodeStub where
  "ledger_proto =
     snd (invoke ledger_asset1 ''Org1MSP'' (Transfer ''asset1'' ''Bob'' ''__proto__''))"

section \<open>The round trip through JSON\<close>

declare nat_digits.simps [simp del]

lemma json_value_simps [simp]:
  "json_value (Number (Finite i)) = Number (Finite i)"
  "json_value (Number NaN) = Null"
  "json_value (Number PosInfinity) = Null"
  "json_value (Number NegInfinity) = Null"
  "json_value Null = Null"
  by (simp_all add: json_value_def)

lemma expect_append: "expect xs (xs @ t) = Some t"
  by (induction xs) simp_all

lemma hex_value_hex_digit: "n < 16 \<Longrightarrow> hex_value (hex_digit n) = Some n"
  by (simp add: hex_value_def hex_digit_def Let_def)

lemma unicode_escape_control:
  assumes "(of_char c :: nat) < 32"
  shows "unicode_escape (CHR ''0'') (CHR ''0'') (hex_digit (of_char c div 16))
           (hex_digit (of_char c mod 16)) = Some c"
proof -
  have a: "hex_value (hex_digit (of_char c div 16)) = Some (of_char c div 16)"
    using assms by (intro hex_value_hex_digit) simp
  have b: "hex_value (hex_digit (of_char c mod 16)) = Some (of_char c mod 16)"
    by (intro hex_value_hex_digit) simp
  have z: "hex_value (CHR ''0'') = Some 0"
    by (simp add: hex_value_def)
  show ?thesis
    by (simp add: unicode_escape_def a b z)
qed

lemma parse_string_chars_QuoteJSONChar:
  "parse_string_chars (QuoteJSONChar c @ t) = cons_result c (parse_string_chars t)"
proof -
  consider (short) "c \<in> {CHR 0x08, CHR 0x09, CHR 0x0A, CHR 0x0C, CHR 0x0D, dquote, backslash}"
    | (control) "c \<notin> {CHR 0x08, CHR 0x09, CHR 0x0A, CHR 0x0C, CHR 0x0D, dquote, backslash}"
        "(of_char c :: nat) < 32"
    | (plain) "c \<notin> {CHR 0x08, CHR 0x09, CHR 0x0A, CHR 0x0C, CHR 0x0D, dquote, backslash}"
        "\<not> (of_char c :: nat) < 32"
    by blast
  then show ?thesis
  proof cases
    case short
    then show ?thesis
      by (auto simp add: QuoteJSONChar_def unescape_def)
  next
    case control
    then show ?thesis
      by (simp add: QuoteJSONChar_def unicode_escape_control)
  next
    case plain
    then show ?thesis
      by (simp add: QuoteJSONChar_def)
  qed
qed

lemma parse_string_chars_quoted:
  "parse_string_chars (concat (map QuoteJSONChar s) @ dquote # rest) = Some (s, rest)"
  by (induction s) (simp_all add: parse_string_chars_QuoteJSONChar cons_result_def)

lemma parse_JSONString_QuoteJSONString:
  "parse_JSONString (QuoteJSONString s @ rest) = Some (s, rest)"
  by (simp add: parse_JSONString_def QuoteJSONString_def parse_string_chars_quoted)

lemma is_digit_digit_char: "d < 10 \<Longrightarrow> is_digit (digit_char d)"
  by (simp add: is_digit_def digit_char_def)

lemma digit_char_value: "d < 10 \<Longrightarrow> (of_char (digit_char d) :: nat) - 48 = d"
  by (simp add: digit_char_def)

lemma digit_char_zero: "d < 10 \<Longrightarrow> digit_char d = CHR ''0'' \<longleftrightarrow> d = 0"
proof
  assume "d < 10" and "digit_char d = CHR ''0''"
  then have "(of_char (digit_char d) :: nat) = of_char (CHR ''0'')" by simp
  with \<open>d < 10\<close> show "d = 0" by (simp add: digit_char_def)
next
  have "char_of (48 :: nat) = CHR ''0''" by code_simp
  moreover assume "d = 0"
  ultimately show "digit_char d = CHR ''0''" by (simp add: digit_char_def)
qed

lemma nat_digits_all_digits: "list_all is_digit (nat_digits n)"
proof (induction n rule: nat_digits.induct)
  case (1 n)
  show ?case
  proof (cases "n < 10")
    case True
    then show ?thesis by (simp add: nat_digits.simps [of n] is_digit_digit_char)
  next
    case False
    with "1" show ?thesis by (simp add: nat_digits.simps [of n] is_digit_digit_char)
  qed
qed

lemma nat_digits_nonempty: "nat_digits n \<noteq> []"
  by (cases "n < 10") (simp_all add: nat_digits.simps [of n])

lemma digits_value_snoc:
  "digits_value (ds @ [c]) = 10 * digits_value ds + (of_char c - 48)"
  by (simp add: digits_value_def)

lemma digits_value_nat_digits: "digits_value (nat_digits n) = n"
proof (induction n rule: nat_digits.induct)
  case (1 n)
  show ?case
  proof (cases "n < 10")
    case True
    then show ?thesis
      by (simp add: nat_digits.simps [of n] digits_value_def digit_char_value)
  next
    case False
    with "1" show ?thesis
      by (simp add: nat_digits.simps [of n] digits_value_snoc digit_char_value)
  qed
qed

lemma hd_nat_digits: "hd (nat_digits n) = CHR ''0'' \<Longrightarrow> n = 0"
proof (induction n rule: nat_digits.induct)
  case (1 n)
  show ?case
  proof (cases "n < 10")
    case True
    with "1.prems" show ?thesis
      by (simp add: nat_digits.simps [of n] digit_char_zero)
  next
    case False
    then have "hd (nat_digits n) = hd (nat_digits (n div 10))"
      by (simp add: nat_digits.simps [of n] nat_digits_nonempty)
    with "1" False have "n div 10 = 0" by simp
    with False show ?thesis by simp
  qed
qed

lemma nat_digits_no_leading_zero:
  "\<not> (hd (nat_digits n) = CHR ''0'' \<and> 1 < length (nat_digits n))"
proof
  assume a: "hd (nat_digits n) = CHR ''0'' \<and> 1 < length (nat_digits n)"
  then have "n = 0" by (simp add: hd_nat_digits)
  with a show False by (simp add: nat_digits.simps [of 0])
qed

lemma takeWhile_digits:
  assumes "list_all is_digit ds" and "rest = [] \<or> \<not> is_digit (hd rest)"
  shows "takeWhile is_digit (ds @ rest) = ds" and "dropWhile is_digit (ds @ rest) = rest"
proof -
  have t: "takeWhile is_digit rest = []" and d: "dropWhile is_digit rest = rest"
    using assms(2) by (cases rest; simp)+
  from assms(1) have all: "\<forall>x\<in>set ds. is_digit x" by (simp add: list_all_iff)
  show "takeWhile is_digit (ds @ rest) = ds"
    using all by (simp add: t)
  show "dropWhile is_digit (ds @ rest) = rest"
    using all by (simp add: d)
qed

lemma parse_digits_nat_digits:
  assumes "rest = [] \<or> \<not> is_digit (hd rest)"
  shows "parse_digits (nat_digits n @ rest) = Some (n, rest)"
  using takeWhile_digits [OF nat_digits_all_digits assms, of n]
    nat_digits_no_leading_zero [of n]
  by (simp add: parse_digits_def Let_def nat_digits_nonempty digits_value_nat_digits)

lemma expect_mismatch: "c \<noteq> d \<Longrightarrow> expect (c # cs) (d # t) = None"
  by simp

lemma is_digit_not_n: "is_digit c \<Longrightarrow> c \<noteq> CHR ''n'' \<and> c \<noteq> CHR ''-''"
  by (auto simp add: is_digit_def)

lemma nat_digits_Cons: "\<exists>c cs. nat_digits n = c # cs \<and> is_digit c"
proof -
  obtain c cs where e: "nat_digits n = c # cs"
    using nat_digits_nonempty [of n] by (cases "nat_digits n") auto
  with nat_digits_all_digits [of n] have "is_digit c" by simp
  with e show ?thesis by blast
qed

lemma parse_JSONNumber_Number_toString:
  assumes "rest = [] \<or> \<not> is_digit (hd rest)"
  shows "parse_JSONNumber (Number_toString i @ rest) = Some (Number (Finite i), rest)"
proof (cases "i < 0")
  case True
  then show ?thesis
    by (simp add: parse_JSONNumber_def Number_toString_def parse_digits_nat_digits [OF assms])
next
  case False
  obtain c cs where e: "nat_digits (nat i) = c # cs" and c: "is_digit c"
    using nat_digits_Cons by blast
  have n: "c \<noteq> CHR ''n''" and m: "c \<noteq> CHR ''-''"
    using is_digit_not_n [OF c] by simp_all
  have p: "parse_digits (c # cs @ rest) = Some (nat i, rest)"
    using parse_digits_nat_digits [OF assms, of "nat i"] by (simp add: e)
  from False show ?thesis
    using n m by (simp add: parse_JSONNumber_def Number_toString_def e p)
qed

lemma parse_JSONNumber_null:
  "parse_JSONNumber (''null'' @ rest) = Some (Null, rest)"
  by (simp add: parse_JSONNumber_def)

lemma parse_JSONNumber_SerializeJSONNumber:
  assumes "rest = [] \<or> \<not> is_digit (hd rest)"
  shows "parse_JSONNumber (SerializeJSONNumber v @ rest) = Some (json_value v, rest)"
proof (cases v)
  case (Number n)
  then show ?thesis
    using parse_JSONNumber_null [of rest]
    by (cases n) (simp_all add: parse_JSONNumber_Number_toString [OF assms])
next
  case Null
  then show ?thesis
    using parse_JSONNumber_null [of rest] by simp
qed

lemma parse_member_string_quoted:
  "parse_member_string name (QuoteJSONString name @ '':'' @ QuoteJSONString s @ rest)
     = Some (s, rest)"
  using expect_append [of "QuoteJSONString name @ '':''" "QuoteJSONString s @ rest"]
  by (simp add: parse_member_string_def parse_JSONString_QuoteJSONString)

lemma parse_member_number_serialized:
  assumes "rest = [] \<or> \<not> is_digit (hd rest)"
  shows "parse_member_number name (QuoteJSONString name @ '':'' @ SerializeJSONNumber v @ rest)
     = Some (json_value v, rest)"
  using expect_append [of "QuoteJSONString name @ '':''" "SerializeJSONNumber v @ rest"]
  by (simp add: parse_member_number_def parse_JSONNumber_SerializeJSONNumber [OF assms])

lemma parse_Asset_JSON_stringify:
  "parse_Asset (JSON_stringify a) = Some (a\<lparr>Value := json_value (Value a)\<rparr>)"
proof -
  let ?t8 = "''}''"
  let ?t7 = "QuoteJSONString ''OwnerOrg'' @ '':'' @ QuoteJSONString (OwnerOrg a) @ ?t8"
  let ?t5 = "QuoteJSONString ''Owner'' @ '':'' @ QuoteJSONString (Owner a) @ '','' @ ?t7"
  let ?t3 = "QuoteJSONString ''Value'' @ '':'' @ SerializeJSONNumber (Value a) @ '','' @ ?t5"
  let ?t1 = "QuoteJSONString ''ID'' @ '':'' @ QuoteJSONString (ID a) @ '','' @ ?t3"
  have s: "JSON_stringify a = ''{'' @ ?t1"
    by (simp add: JSON_stringify_def)
  have m1: "parse_member_string ''ID'' ?t1 = Some (ID a, '','' @ ?t3)"
    by (rule parse_member_string_quoted)
  have m3: "parse_member_number ''Value'' ?t3 = Some (json_value (Value a), '','' @ ?t5)"
    by (rule parse_member_number_serialized) (simp add: is_digit_def)
  have m5: "parse_member_string ''Owner'' ?t5 = Some (Owner a, '','' @ ?t7)"
    by (rule parse_member_string_quoted)
  have m7: "parse_member_string ''OwnerOrg'' ?t7 = Some (OwnerOrg a, ?t8)"
    by (rule parse_member_string_quoted)
  have e: "\<And>t. expect '','' ('','' @ t) = Some t" "\<And>t. expect ''{'' (''{'' @ t) = Some t"
    by simp_all
  show ?thesis
    unfolding parse_Asset_def s
    by (simp only: e m1 m3 m5 m7 option.case prod.case if_True refl) simp
qed

lemma JSON_parse_JSON_stringify:
  "JSON_parse (JSON_stringify a) = Inr (a\<lparr>Value := json_value (Value a)\<rparr>)"
  by (simp add: JSON_parse_def parse_Asset_JSON_stringify)

section \<open>Facts about the stub and the policy builder\<close>

lemma AssetExists_eq:
  "AssetExists ctx assetId =
     (Inr (\<exists>b. state (stub ctx) assetId = Some b \<and> b \<noteq> []), ctx)"
  by (cases "state (stub ctx) assetId") (simp_all add: AssetExists_def getState_def)

lemma Object_entries_Nil: "Object_entries [] = []"
  by (simp add: Object_entries_def)

lemma Object_entries_single: "Object_entries [x] = [x]"
  by (cases x) (simp add: Object_entries_def)

lemma owner_policy_org: "org \<noteq> ''__proto__'' \<Longrightarrow> owner_policy org = single_org org"
  by (simp add: owner_policy_def)

lemma owner_policy_proto: "owner_policy ''__proto__'' = \<lparr>n_out_of = 0, identities = []\<rparr>"
  by (simp add: owner_policy_def)

lemma addOrgs_MEMBER_single:
  "addOrgs ''MEMBER'' [org] new_KeyEndorsementPolicy =
     Inr \<lparr>orgs = (if org = ''__proto__'' then [] else [(org, MEMBER)])\<rparr>"
  by (simp add: addOrgs_def new_KeyEndorsementPolicy_def set_org_def)

lemma getPolicy_single:
  "getPolicy \<lparr>orgs = (if org = ''__proto__'' then [] else [(org, MEMBER)])\<rparr> = owner_policy org"
  by (simp add: getPolicy_def listOrgs_def Object_entries_Nil Object_entries_single
      owner_policy_def single_org_def)

lemma setAssetStateBasedEndorsement_single:
  "setAssetStateBasedEndorsement ctx assetId [org] =
     (Inr (), ctx\<lparr>stub := (stub ctx)\<lparr>writeset := writeset (stub ctx) @
        [SetStateValidationParameter assetId (owner_policy org)]\<rparr>\<rparr>)"
  by (simp add: setAssetStateBasedEndorsement_def addOrgs_MEMBER_single getPolicy_single
      setStateValidationParameter_def del: One_nat_def)

lemma JSON_stringify_nonempty: "JSON_stringify a \<noteq> []"
  by (simp add: JSON_stringify_def)

lemma ReadAsset_absent:
  assumes "AssetExists ctx assetId = (Inr False, ctx)"
  shows "ReadAsset ctx assetId = (Inl (NotFound assetId), ctx)"
  using assms by (simp add: ReadAsset_def)

lemma genesis_absent: "AssetExists ctx_genesis assetId = (Inr False, ctx_genesis)"
  by (simp add: AssetExists_eq ctx_genesis_def genesis_def)

lemma AssetExists_case:
  "AssetExists ctx assetId =
     (Inr (case state (stub ctx) assetId of None \<Rightarrow> False | Some b \<Rightarrow> b \<noteq> []), ctx)"
  by (simp add: AssetExists_def getState_def split: option.split)

lemma ReadAsset_result:
  "ReadAsset ctx assetId =
     (case state (stub ctx) assetId of
        None \<Rightarrow> (Inl (NotFound assetId), ctx)
      | Some b \<Rightarrow> if b = [] then (Inl (NotFound assetId), ctx) else (Inr b, ctx))"
  by (simp add: ReadAsset_def AssetExists_case getState_def toString_def split: option.split)

lemma CreateAsset_result:
  "CreateAsset ctx assetId val owner =
     (if fst (AssetExists ctx assetId) = Inr True then (Inl (AlreadyExists assetId), ctx)
      else (Inr (), ctx\<lparr>stub := (stub ctx)\<lparr>writeset := writeset (stub ctx) @
        [PutState assetId (JSON_stringify
           \<lparr>ID = assetId, Value = Number val, Owner = owner, OwnerOrg = clientIdentity ctx\<rparr>),
         SetStateValidationParameter assetId
           (owner_policy (clientIdentity ctx))]\<rparr>\<rparr>))"
  by (simp add: CreateAsset_def AssetExists_case setAssetStateBasedEndorsement_single
      getClientOrgId_def putState_def Buffer_from_def Let_def)

lemma UpdateAsset_result:
  "UpdateAsset ctx assetId newValue =
     (case ReadAsset ctx assetId of
        (Inl e, c) \<Rightarrow> (Inl e, c)
      | (Inr t, c) \<Rightarrow>
          (case parse_Asset t of
             None \<Rightarrow> (Inl SyntaxError, c)
           | Some a \<Rightarrow>
               (Inr (), c\<lparr>stub := (stub c)\<lparr>writeset := writeset (stub c) @
                  [PutState assetId (JSON_stringify (a\<lparr>Value := Number newValue\<rparr>))]\<rparr>\<rparr>)))"
  by (simp add: UpdateAsset_def JSON_parse_def putState_def Buffer_from_def Let_def
      split: prod.split sum.split option.split)

lemma TransferAsset_result:
  "TransferAsset ctx assetId newOwner newOwnerOrg =
     (case ReadAsset ctx assetId of
        (Inl e, c) \<Rightarrow> (Inl e, c)
      | (Inr t, c) \<Rightarrow>
          (case parse_Asset t of
             None \<Rightarrow> (Inl SyntaxError, c)
           | Some a \<Rightarrow>
               (Inr (), c\<lparr>stub := (stub c)\<lparr>writeset := writeset (stub c) @
                  [PutState assetId
                     (JSON_stringify (a\<lparr>Owner := newOwner, OwnerOrg := newOwnerOrg\<rparr>)),
                   SetStateValidationParameter (ID a)
                     (owner_policy newOwnerOrg)]\<rparr>\<rparr>)))"
  by (simp add: TransferAsset_def JSON_parse_def putState_def Buffer_from_def Let_def
      setAssetStateBasedEndorsement_single split: prod.split sum.split option.split)

lemma DeleteAsset_result:
  "DeleteAsset ctx assetId =
     (if fst (AssetExists ctx assetId) = Inr True
      then (Inr (), ctx\<lparr>stub := (stub ctx)\<lparr>writeset := writeset (stub ctx) @ [DeleteState assetId]\<rparr>\<rparr>)
      else (Inl (NotFound assetId), ctx))"
  by (simp add: DeleteAsset_def AssetExists_case deleteState_def)

lemma invoke_Create:
  "invoke ledger mspid (Create assetId val owner) =
     (case state ledger assetId of
        None \<Rightarrow> (Inr Void, ledger\<lparr>state := (state ledger)(assetId \<mapsto> JSON_stringify
           \<lparr>ID = assetId, Value = Number val, Owner = owner, OwnerOrg = mspid\<rparr>),
           validation := (validation ledger)(assetId \<mapsto> owner_policy mspid), writeset := []\<rparr>)
      | Some b \<Rightarrow>
          if b = [] then (Inr Void, ledger\<lparr>state := (state ledger)(assetId \<mapsto> JSON_stringify
           \<lparr>ID = assetId, Value = Number val, Owner = owner, OwnerOrg = mspid\<rparr>),
           validation := (validation ledger)(assetId \<mapsto> owner_policy mspid), writeset := []\<rparr>)
          else (Inl (AlreadyExists assetId), ledger))"
  by (simp add: invoke_def respond_def CreateAsset_result AssetExists_case commit_def
      split: option.split)

lemma invoke_Update:
  "invoke ledger mspid (Update assetId newValue) =
     (case state ledger assetId of
        None \<Rightarrow> (Inl (NotFound assetId), ledger)
      | Some b \<Rightarrow>
          if b = [] then (Inl (NotFound assetId), ledger)
          else
            (case parse_Asset b of
               None \<Rightarrow> (Inl SyntaxError, ledger)
             | Some a \<Rightarrow>
                 (Inr Void, ledger\<lparr>state := (state ledger)(assetId \<mapsto>
                    JSON_stringify (a\<lparr>Value := Number newValue\<rparr>)), writeset := []\<rparr>)))"
  by (simp add: invoke_def respond_def UpdateAsset_result ReadAsset_result commit_def
      split: option.split)

lemma invoke_Transfer:
  "invoke ledger mspid (Transfer assetId newOwner newOwnerOrg) =
     (case state ledger assetId of
        None \<Rightarrow> (Inl (NotFound assetId), ledger)
      | Some b \<Rightarrow>
          if b = [] then (Inl (NotFound assetId), ledger)
          else
            (case parse_Asset b of
               None \<Rightarrow> (Inl SyntaxError, ledger)
             | Some a \<Rightarrow>
                 (Inr Void, ledger\<lparr>state := (state ledger)(assetId \<mapsto>
                    JSON_stringify (a\<lparr>Owner := newOwner, OwnerOrg := newOwnerOrg\<rparr>)),
                    validation := (validation ledger)(ID a \<mapsto> owner_policy newOwnerOrg),
                    writeset := []\<rparr>)))"
  by (simp add: invoke_def respond_def TransferAsset_result ReadAsset_result commit_def
      split: option.split)

lemma invoke_Delete:
  "invoke ledger mspid (Delete assetId) =
     (case state ledger assetId of
        None \<Rightarrow> (Inl (NotFound assetId), ledger)
      | Some b \<Rightarrow>
          if b = [] then (Inl (NotFound assetId), ledger)
          else (Inr Void, ledger\<lparr>state := (state ledger)(assetId := None), writeset := []\<rparr>))"
  by (simp add: invoke_def respond_def DeleteAsset_result AssetExists_case commit_def
      split: option.split)

lemma invoke_Read:
  "invoke ledger mspid (Read assetId) =
     (case state ledger assetId of
        None \<Rightarrow> (Inl (NotFound assetId), ledger)
      | Some b \<Rightarrow>
          if b = [] then (Inl (NotFound assetId), ledger)
          else (Inr (Text b), ledger\<lparr>writeset := []\<rparr>))"
  by (simp add: invoke_def respond_def ReadAsset_result commit_def split: option.split)

lemma invoke_Exists:
  "invoke ledger mspid (Exists assetId) =
     (Inr (Boolean (case state ledger assetId of None \<Rightarrow> False | Some b \<Rightarrow> b \<noteq> [])),
      ledger\<lparr>writeset := []\<rparr>)"
  by (simp add: invoke_def respond_def AssetExists_case commit_def)


section \<open>The invariant of the ledger\<close>

lemma parse_JSONNumber_json_value:
  assumes "parse_JSONNumber t = Some (v, r)"
  shows "json_value v = v"
  using assms
  by (auto simp add: parse_JSONNumber_def split: option.splits list.splits if_splits)

lemma parse_Asset_json_value:
  assumes "parse_Asset t = Some a"
  shows "json_value (Value a) = Value a"
proof -
  from assms obtain t3 v t4 where "parse_member_number ''Value'' t3 = Some (v, t4)"
    and "Value a = v"
    by (auto simp add: parse_Asset_def split: option.splits if_splits)
  then show ?thesis
    by (auto simp add: parse_member_number_def parse_JSONNumber_json_value split: option.splits)
qed

lemma consistent_genesis: "consistent genesis"
  by (simp add: consistent_def genesis_def)

lemma consistent_put:
  assumes c: "consistent ledger"
    and p: "parse_Asset t = Some a"
    and i: "ID a = key"
    and v: "pol key = Some (owner_policy (OwnerOrg a))"
    and o: "\<And>k. k \<noteq> key \<Longrightarrow> pol k = validation ledger k"
  shows "consistent (ledger\<lparr>state := (state ledger)(key \<mapsto> t), validation := pol, writeset := []\<rparr>)"
  unfolding consistent_def
proof (intro conjI allI impI)
  show "writeset (ledger\<lparr>state := (state ledger)(key \<mapsto> t), validation := pol, writeset := []\<rparr>) = []"
    by simp
next
  fix k b
  let ?l = "ledger\<lparr>state := (state ledger)(key \<mapsto> t), validation := pol, writeset := []\<rparr>"
  assume h: "state ?l k = Some b \<and> b \<noteq> []"
  show "\<exists>a. parse_Asset b = Some a \<and> ID a = k \<and> validation ?l k = Some (owner_policy (OwnerOrg a))"
  proof (cases "k = key")
    case True
    with h have "b = t" by simp
    with p i v True show ?thesis by simp
  next
    case False
    with h have "state ledger k = Some b \<and> b \<noteq> []" by simp
    with c obtain a' where "parse_Asset b = Some a'" "ID a' = k"
      "validation ledger k = Some (owner_policy (OwnerOrg a'))"
      unfolding consistent_def by blast
    with o [OF False] show ?thesis by simp
  qed
qed

lemma consistent_delete:
  assumes c: "consistent ledger"
  shows "consistent (ledger\<lparr>state := (state ledger)(key := None), writeset := []\<rparr>)"
  unfolding consistent_def
proof (intro conjI allI impI)
  show "writeset (ledger\<lparr>state := (state ledger)(key := None), writeset := []\<rparr>) = []"
    by simp
next
  fix k b
  let ?l = "ledger\<lparr>state := (state ledger)(key := None), writeset := []\<rparr>"
  assume h: "state ?l k = Some b \<and> b \<noteq> []"
  then have "state ledger k = Some b \<and> b \<noteq> []"
    by (cases "k = key") simp_all
  with c obtain a' where "parse_Asset b = Some a'" "ID a' = k"
    "validation ledger k = Some (owner_policy (OwnerOrg a'))"
    unfolding consistent_def by blast
  then show "\<exists>a. parse_Asset b = Some a \<and> ID a = k \<and> validation ?l k = Some (owner_policy (OwnerOrg a))"
    by simp
qed

lemma consistent_reset:
  assumes "consistent ledger"
  shows "ledger\<lparr>writeset := []\<rparr> = ledger"
  using assms by (simp add: consistent_def)

lemma consistent_stored:
  assumes "consistent ledger" and "state ledger key = Some b" and "b \<noteq> []"
  obtains a where "parse_Asset b = Some a" and "ID a = key"
    and "validation ledger key = Some (owner_policy (OwnerOrg a))"
  using assms unfolding consistent_def by blast

lemma validation_same:
  "ledger\<lparr>state := s, writeset := []\<rparr> = ledger\<lparr>state := s, validation := validation ledger, writeset := []\<rparr>"
  by simp

lemma consistent_invoke:
  assumes c: "consistent ledger" and i: "invoke ledger mspid c = (Inr r, ledger')"
  shows "consistent ledger'"
proof (cases c)
  case (Create k v ow)
  let ?a = "\<lparr>ID = k, Value = Number v, Owner = ow, OwnerOrg = mspid\<rparr>"
  from i Create have l: "ledger' = ledger\<lparr>state := (state ledger)(k \<mapsto> JSON_stringify ?a),
      validation := (validation ledger)(k \<mapsto> owner_policy mspid), writeset := []\<rparr>"
    by (auto simp add: invoke_Create split: option.splits if_splits)
  show ?thesis
    unfolding l
    by (rule consistent_put [OF c parse_Asset_JSON_stringify]) simp_all
next
  case (Read k)
  with i have "ledger' = ledger\<lparr>writeset := []\<rparr>"
    by (auto simp add: invoke_Read split: option.splits if_splits)
  with c show ?thesis by (simp add: consistent_reset)
next
  case (Update k v)
  with i obtain b a where s: "state ledger k = Some b" and n: "b \<noteq> []"
    and p: "parse_Asset b = Some a"
    and l: "ledger' = ledger\<lparr>state := (state ledger)(k \<mapsto>
              JSON_stringify (a\<lparr>Value := Number v\<rparr>)), writeset := []\<rparr>"
    by (auto simp add: invoke_Update split: option.splits if_splits)
  from consistent_stored [OF c s n] p have k: "ID a = k"
    and pol: "validation ledger k = Some (owner_policy (OwnerOrg a))"
    by auto
  show ?thesis
    unfolding l validation_same
    by (rule consistent_put [OF c parse_Asset_JSON_stringify]) (simp_all add: k pol)
next
  case (Delete k)
  with i have "ledger' = ledger\<lparr>state := (state ledger)(k := None), writeset := []\<rparr>"
    by (auto simp add: invoke_Delete split: option.splits if_splits)
  with c show ?thesis by (simp add: consistent_delete)
next
  case (Transfer k ow og)
  with i obtain b a where s: "state ledger k = Some b" and n: "b \<noteq> []"
    and p: "parse_Asset b = Some a"
    and l: "ledger' = ledger\<lparr>state := (state ledger)(k \<mapsto>
              JSON_stringify (a\<lparr>Owner := ow, OwnerOrg := og\<rparr>)),
              validation := (validation ledger)(ID a \<mapsto> owner_policy og), writeset := []\<rparr>"
    by (auto simp add: invoke_Transfer split: option.splits if_splits)
  from consistent_stored [OF c s n] p have k: "ID a = k"
    by auto
  show ?thesis
    unfolding l
    by (rule consistent_put [OF c parse_Asset_JSON_stringify]) (simp_all add: k)
next
  case (Exists k)
  with i have "ledger' = ledger\<lparr>writeset := []\<rparr>"
    by (auto simp add: invoke_Exists)
  with c show ?thesis by (simp add: consistent_reset)
qed
lemma consistent_transactions:
  assumes "consistent ledger" and "transactions ledger cs = Inr ledger'"
  shows "consistent ledger'"
  using assms
proof (induction cs arbitrary: ledger)
  case Nil
  then show ?case by simp
next
  case (Cons x cs)
  obtain mspid c where x: "x = (mspid, c)" by (cases x)
  from Cons.prems(2) obtain r l1 where
    i: "invoke ledger mspid c = (Inr r, l1)" and t: "transactions l1 cs = Inr ledger'"
    by (auto simp add: x split: prod.splits sum.splits)
  from consistent_invoke [OF Cons.prems(1) i] have "consistent l1" .
  from Cons.IH [OF this t] show ?case .
qed


text \<open>A transaction that fails leaves the ledger as it was.\<close>

lemma invoke_failure_unchanged:
  assumes "invoke ledger mspid c = (Inl e, ledger')"
  shows "ledger' = ledger"
  using assms by (auto simp add: invoke_def split: prod.splits sum.splits)

text \<open>
  On a ledger that the contract has built, no transaction ends in the model's
  \<open>SyntaxError\<close>: every text that \<^verbatim>\<open>JSON.parse\<close> is given there is one that the
  model reads.
\<close>

lemma reachable_parses:
  assumes "transactions genesis cs = Inr ledger"
  shows "fst (invoke ledger mspid c) \<noteq> Inl SyntaxError"
proof -
  have c: "consistent ledger"
    using consistent_genesis assms by (rule consistent_transactions)
  have p: "\<And>key b. state ledger key = Some b \<Longrightarrow> b \<noteq> [] \<Longrightarrow> parse_Asset b \<noteq> None"
    using c unfolding consistent_def by fastforce
  show ?thesis
  proof (cases c)
    case (Create k v ow)
    then show ?thesis
      by (simp add: invoke_Create AlreadyExists_def split: option.split)
  next
    case (Read k)
    then show ?thesis
      by (simp add: invoke_Read NotFound_def split: option.split)
  next
    case (Update k v)
    then show ?thesis
      using p [of k] by (auto simp add: invoke_Update NotFound_def split: option.split)
  next
    case (Delete k)
    then show ?thesis
      by (simp add: invoke_Delete NotFound_def split: option.split)
  next
    case (Transfer k ow og)
    then show ?thesis
      using p [of k] by (auto simp add: invoke_Transfer NotFound_def split: option.split)
  next
    case (Exists k)
    then show ?thesis
      by (simp add: invoke_Exists)
  qed
qed

section \<open>Facts about the concrete ledgers\<close>

lemma single_org_satisfied:
  "satisfied_by (single_org org) endorsers = (org \<in> set endorsers)"
  by (simp add: single_org_def satisfied_by_def)

lemma stored_asset_eq:
  "stored_asset ledger key =
     (case state ledger key of None \<Rightarrow> None | Some b \<Rightarrow> parse_Asset b)"
  by (simp add: stored_asset_def getState_def toString_def JSON_parse_def
      split: option.split)

lemma ledger_asset1_eq:
  "ledger_asset1 = \<lparr>state = [''asset1'' \<mapsto> JSON_stringify asset1],
     validation = [''asset1'' \<mapsto> single_org ''Org1MSP''], writeset = []\<rparr>"
  by (simp add: ledger_asset1_def invoke_Create genesis_def asset1_def owner_policy_def)

lemma invoke_asset1:
  "invoke genesis ''Org1MSP'' (Create ''asset1'' (Finite 100) ''Alice'') = (Inr Void, ledger_asset1)"
  by (simp add: ledger_asset1_def invoke_Create genesis_def)

lemma transactions_asset1:
  "transactions genesis [(''Org1MSP'', Create ''asset1'' (Finite 100) ''Alice'')] = Inr ledger_asset1"
  by (simp add: invoke_asset1)

lemma asset1_exists:
  "AssetExists \<lparr>stub = ledger_asset1, clientIdentity = mspid\<rparr> ''asset1''
     = (Inr True, \<lparr>stub = ledger_asset1, clientIdentity = mspid\<rparr>)"
  by (simp add: AssetExists_case ledger_asset1_eq JSON_stringify_nonempty)

lemma stored_asset1: "stored_asset ledger_asset1 ''asset1'' = Some asset1"
  by (simp add: stored_asset_eq ledger_asset1_eq parse_Asset_JSON_stringify asset1_def)

section \<open>The existence probe\<close>

text \<open>
  C7. For every key and every ledger, \<open>AssetExists\<close> returns true exactly when the
  ledger holds a present, non-empty value for the key; it returns a value and no
  error, and it hands back the context as it received it, write set included.
\<close>

theorem AssetExists_probe:
  "AssetExists ctx assetId =
     (Inr (\<exists>b. getState (stub ctx) assetId = Some b \<and> 0 < length b), ctx)"
  by (cases "state (stub ctx) assetId") (simp_all add: AssetExists_def getState_def)

section \<open>Operations on a key without a record\<close>

text \<open>
  C4. When no record exists for a key, \<open>ReadAsset\<close>, \<open>UpdateAsset\<close>, \<open>DeleteAsset\<close> and
  \<open>TransferAsset\<close> all fail with the not-found error; \<open>UpdateAsset\<close> and
  \<open>TransferAsset\<close> return the very result of their call of \<open>ReadAsset\<close>; the context
  comes back unchanged, so nothing was added to the write set.
\<close>

theorem absent_not_found:
  assumes "AssetExists ctx assetId = (Inr False, ctx)"
  shows "ReadAsset ctx assetId = (Inl (NotFound assetId), ctx)
       \<and> UpdateAsset ctx assetId newValue = (Inl (NotFound assetId), ctx)
       \<and> DeleteAsset ctx assetId = (Inl (NotFound assetId), ctx)
       \<and> TransferAsset ctx assetId newOwner newOwnerOrg = (Inl (NotFound assetId), ctx)
       \<and> UpdateAsset ctx assetId newValue = (Inl (NotFound assetId), snd (ReadAsset ctx assetId))
       \<and> TransferAsset ctx assetId newOwner newOwnerOrg
           = (Inl (NotFound assetId), snd (ReadAsset ctx assetId))"
proof -
  have r: "ReadAsset ctx assetId = (Inl (NotFound assetId), ctx)"
    using assms by (rule ReadAsset_absent)
  have u: "UpdateAsset ctx assetId newValue = (Inl (NotFound assetId), ctx)"
    by (simp add: UpdateAsset_def r)
  have d: "DeleteAsset ctx assetId = (Inl (NotFound assetId), ctx)"
    using assms by (simp add: DeleteAsset_def)
  have t: "TransferAsset ctx assetId newOwner newOwnerOrg = (Inl (NotFound assetId), ctx)"
    by (simp add: TransferAsset_def r)
  show ?thesis
    by (simp add: r u d t)
qed

theorem absent_not_found_witness:
  "ReadAsset ctx_genesis ''asset1'' = (Inl (NotFound ''asset1''), ctx_genesis)
   \<and> UpdateAsset ctx_genesis ''asset1'' (Finite 7) = (Inl (NotFound ''asset1''), ctx_genesis)
   \<and> DeleteAsset ctx_genesis ''asset1'' = (Inl (NotFound ''asset1''), ctx_genesis)
   \<and> TransferAsset ctx_genesis ''asset1'' ''Bob'' ''Org2MSP''
       = (Inl (NotFound ''asset1''), ctx_genesis)"
  using absent_not_found [OF genesis_absent, of "''asset1''" "Finite 7" "''Bob''" "''Org2MSP''"]
  by simp

section \<open>Creation\<close>

text \<open>
  C5. When a record already exists for a key, \<open>CreateAsset\<close> fails with the
  already-exists error and hands the context back unchanged: no data write and no
  policy write is in the write set, and the transaction leaves the ledger, with the
  record and its policy, as it was.
\<close>

theorem create_existing_fails:
  assumes "AssetExists ctx assetId = (Inr True, ctx)"
  shows "CreateAsset ctx assetId val owner = (Inl (AlreadyExists assetId), ctx)
       \<and> invoke (stub ctx) (clientIdentity ctx) (Create assetId val owner)
           = (Inl (AlreadyExists assetId), stub ctx)"
proof -
  from assms have e: "\<exists>b. state (stub ctx) assetId = Some b \<and> b \<noteq> []"
    by (simp add: AssetExists_eq)
  from assms have "CreateAsset ctx assetId val owner = (Inl (AlreadyExists assetId), ctx)"
    by (simp add: CreateAsset_result)
  moreover from e have "invoke (stub ctx) (clientIdentity ctx) (Create assetId val owner)
      = (Inl (AlreadyExists assetId), stub ctx)"
    by (auto simp add: invoke_Create)
  ultimately show ?thesis by simp
qed

theorem create_existing_fails_witness:
  "CreateAsset ctx_asset1 ''asset1'' (Finite 5) ''Bob'' = (Inl (AlreadyExists ''asset1''), ctx_asset1)
   \<and> invoke ledger_asset1 ''Org2MSP'' (Create ''asset1'' (Finite 5) ''Bob'')
       = (Inl (AlreadyExists ''asset1''), ledger_asset1)"
  using create_existing_fails [of ctx_asset1 "''asset1''" "Finite 5" "''Bob''"]
    asset1_exists [of "''Org2MSP''"]
  by (simp add: ctx_asset1_def)


text \<open>
  C3 (as amended). When no record exists for a key, \<open>CreateAsset\<close> called by a client
  whose organization is \<open>callerOrg\<close> writes two things for the key: the serialized
  record, which reads back with the given id and owner, with \<open>OwnerOrg = callerOrg\<close>,
  and with the given value when that is finite and \<^verbatim>\<open>null\<close> when it is \<open>NaN\<close> or an
  infinity; and the policy built for \<open>callerOrg\<close>, which \<open>callerOrg\<close> alone
  satisfies (for the string \<^verbatim>\<open>__proto__\<close> it is the policy without a principal).
  Once the transaction is applied, \<open>AssetExists\<close> answers true for the key.
\<close>

theorem create_stores_record:
  assumes "AssetExists ctx assetId = (Inr False, ctx)"
  shows "\<exists>b. CreateAsset ctx assetId val owner =
             (Inr (), ctx\<lparr>stub := (stub ctx)\<lparr>writeset := writeset (stub ctx) @
                [PutState assetId b,
                 SetStateValidationParameter assetId (owner_policy (clientIdentity ctx))]\<rparr>\<rparr>)
         \<and> JSON_parse (toString b) =
             Inr \<lparr>ID = assetId, Value = json_value (Number val), Owner = owner,
                   OwnerOrg = clientIdentity ctx\<rparr>
         \<and> invoke (stub ctx) (clientIdentity ctx) (Create assetId val owner) =
             (Inr Void, (stub ctx)\<lparr>
                state := (state (stub ctx))(assetId \<mapsto> b),
                validation := (validation (stub ctx))
                   (assetId \<mapsto> owner_policy (clientIdentity ctx)),
                writeset := []\<rparr>)
         \<and> (clientIdentity ctx \<noteq> ''__proto__'' \<longrightarrow>
              owner_policy (clientIdentity ctx) = single_org (clientIdentity ctx)
              \<and> (\<forall>endorsers. satisfied_by (owner_policy (clientIdentity ctx)) endorsers
                     = (clientIdentity ctx \<in> set endorsers)))
         \<and> fst (AssetExists
                \<lparr>stub = snd (invoke (stub ctx) (clientIdentity ctx) (Create assetId val owner)),
                   clientIdentity = anyOrg\<rparr> assetId) = Inr True
         \<and> stored_asset (snd (invoke (stub ctx) (clientIdentity ctx) (Create assetId val owner)))
               assetId
             = Some \<lparr>ID = assetId, Value = json_value (Number val), Owner = owner,
                      OwnerOrg = clientIdentity ctx\<rparr>"
proof -
  let ?a = "\<lparr>ID = assetId, Value = Number val, Owner = owner, OwnerOrg = clientIdentity ctx\<rparr>"
  let ?b = "Buffer_from (JSON_stringify ?a)"
  from assms have n: "(case state (stub ctx) assetId of None \<Rightarrow> False | Some b \<Rightarrow> b \<noteq> []) = False"
    by (simp add: AssetExists_case)
  have 1: "CreateAsset ctx assetId val owner =
             (Inr (), ctx\<lparr>stub := (stub ctx)\<lparr>writeset := writeset (stub ctx) @
                [PutState assetId ?b,
                 SetStateValidationParameter assetId (owner_policy (clientIdentity ctx))]\<rparr>\<rparr>)"
    using assms by (simp add: CreateAsset_result Buffer_from_def)
  have 2: "JSON_parse (toString ?b) =
             Inr \<lparr>ID = assetId, Value = json_value (Number val), Owner = owner,
                   OwnerOrg = clientIdentity ctx\<rparr>"
    by (simp add: toString_def Buffer_from_def JSON_parse_JSON_stringify)
  have 3: "invoke (stub ctx) (clientIdentity ctx) (Create assetId val owner) =
             (Inr Void, (stub ctx)\<lparr>
                state := (state (stub ctx))(assetId \<mapsto> ?b),
                validation := (validation (stub ctx))
                   (assetId \<mapsto> owner_policy (clientIdentity ctx)),
                writeset := []\<rparr>)"
    using n by (simp add: invoke_Create Buffer_from_def split: option.splits)
  have 4: "clientIdentity ctx \<noteq> ''__proto__'' \<longrightarrow>
              owner_policy (clientIdentity ctx) = single_org (clientIdentity ctx)
              \<and> (\<forall>endorsers. satisfied_by (owner_policy (clientIdentity ctx)) endorsers
                     = (clientIdentity ctx \<in> set endorsers))"
    by (simp add: owner_policy_org single_org_satisfied)
  have 5: "fst (AssetExists
                \<lparr>stub = snd (invoke (stub ctx) (clientIdentity ctx) (Create assetId val owner)),
                   clientIdentity = anyOrg\<rparr> assetId) = Inr True"
    by (simp add: 3 AssetExists_case Buffer_from_def JSON_stringify_nonempty)
  have 6: "stored_asset (snd (invoke (stub ctx) (clientIdentity ctx) (Create assetId val owner)))
               assetId
             = Some \<lparr>ID = assetId, Value = json_value (Number val), Owner = owner,
                      OwnerOrg = clientIdentity ctx\<rparr>"
    by (simp add: 3 stored_asset_eq Buffer_from_def parse_Asset_JSON_stringify)
  from 1 2 3 4 5 6 show ?thesis
    by (intro exI [of _ ?b]) blast
qed

theorem create_stores_record_witness:
  "\<exists>b. CreateAsset ctx_genesis ''asset1'' (Finite 100) ''Alice'' =
          (Inr (), ctx_genesis\<lparr>stub := genesis\<lparr>writeset :=
             [PutState ''asset1'' b,
              SetStateValidationParameter ''asset1'' (single_org ''Org1MSP'')]\<rparr>\<rparr>)
      \<and> JSON_parse (toString b) = Inr asset1
      \<and> (\<forall>endorsers. satisfied_by (single_org ''Org1MSP'') endorsers
             = (''Org1MSP'' \<in> set endorsers))
      \<and> fst (AssetExists \<lparr>stub = ledger_asset1, clientIdentity = ''Org2MSP''\<rparr> ''asset1'')
          = Inr True
      \<and> stored_asset ledger_asset1 ''asset1'' = Some asset1"
proof -
  have c: "clientIdentity ctx_genesis = ''Org1MSP''" "stub ctx_genesis = genesis"
    "writeset genesis = []"
    by (simp_all add: ctx_genesis_def genesis_def)
  have o: "''Org1MSP'' \<noteq> ''__proto__''"
    by simp
  from create_stores_record [OF genesis_absent, of "''asset1''" "Finite 100" "''Alice''" "''Org2MSP''"]
  obtain b where 1: "CreateAsset ctx_genesis ''asset1'' (Finite 100) ''Alice'' =
          (Inr (), ctx_genesis\<lparr>stub := genesis\<lparr>writeset :=
             [PutState ''asset1'' b,
              SetStateValidationParameter ''asset1'' (owner_policy ''Org1MSP'')]\<rparr>\<rparr>)"
    and 2: "JSON_parse (toString b) =
              Inr \<lparr>ID = ''asset1'', Value = json_value (Number (Finite 100)), Owner = ''Alice'',
                    OwnerOrg = ''Org1MSP''\<rparr>"
    and 4: "''Org1MSP'' \<noteq> ''__proto__'' \<longrightarrow>
              owner_policy ''Org1MSP'' = single_org ''Org1MSP''
              \<and> (\<forall>endorsers. satisfied_by (owner_policy ''Org1MSP'') endorsers
                     = (''Org1MSP'' \<in> set endorsers))"
    and 5: "fst (AssetExists
                \<lparr>stub = snd (invoke genesis ''Org1MSP'' (Create ''asset1'' (Finite 100) ''Alice'')),
                   clientIdentity = ''Org2MSP''\<rparr> ''asset1'') = Inr True"
    and 6: "stored_asset (snd (invoke genesis ''Org1MSP'' (Create ''asset1'' (Finite 100) ''Alice'')))
               ''asset1''
             = Some \<lparr>ID = ''asset1'', Value = json_value (Number (Finite 100)), Owner = ''Alice'',
                      OwnerOrg = ''Org1MSP''\<rparr>"
    unfolding c by auto
  from 4 o have p: "owner_policy ''Org1MSP'' = single_org ''Org1MSP''"
    by blast
  from 4 o have "\<forall>endorsers. satisfied_by (owner_policy ''Org1MSP'') endorsers
             = (''Org1MSP'' \<in> set endorsers)"
    by blast
  then have s: "\<forall>endorsers. satisfied_by (single_org ''Org1MSP'') endorsers
             = (''Org1MSP'' \<in> set endorsers)"
    unfolding p .
  from 1 2 5 6 s show ?thesis
    unfolding p by (intro exI [of _ b]) (simp add: asset1_def ledger_asset1_def)
qed

text \<open>
  The claim as stated, for every value, fails for \<open>Infinity\<close> (and for \<open>-Infinity\<close>
  and \<open>NaN\<close>): the record stored under the key has \<open>Value\<close> \<^verbatim>\<open>null\<close>.
\<close>

theorem create_Infinity_counterexample:
  "fst (invoke genesis ''Org1MSP'' (Create ''asset1'' PosInfinity ''Alice'')) = Inr Void
   \<and> stored_asset (snd (invoke genesis ''Org1MSP'' (Create ''asset1'' PosInfinity ''Alice'')))
        ''asset1''
       = Some \<lparr>ID = ''asset1'', Value = Null, Owner = ''Alice'', OwnerOrg = ''Org1MSP''\<rparr>
   \<and> stored_asset (snd (invoke genesis ''Org1MSP'' (Create ''asset1'' PosInfinity ''Alice'')))
        ''asset1''
       \<noteq> Some \<lparr>ID = ''asset1'', Value = Number PosInfinity, Owner = ''Alice'',
                 OwnerOrg = ''Org1MSP''\<rparr>"
  by (simp add: invoke_Create genesis_def stored_asset_eq parse_Asset_JSON_stringify)

section \<open>The round trip of a record\<close>

text \<open>
  C8 (as amended). For every asset, parsing the stored form of its serialization
  returns a record with the same \<open>ID\<close>, \<open>Owner\<close> and \<open>OwnerOrg\<close>, whatever
  characters they hold, and with the same \<open>Value\<close> when that is a finite number; a
  \<open>Value\<close> that is \<open>NaN\<close> or an infinity comes back as \<^verbatim>\<open>null\<close>.
\<close>

theorem JSON_roundtrip:
  "JSON_parse (toString (Buffer_from (JSON_stringify a))) = Inr (a\<lparr>Value := json_value (Value a)\<rparr>)
   \<and> (Value a = Number (Finite i) \<longrightarrow>
        JSON_parse (toString (Buffer_from (JSON_stringify a))) = Inr a)"
  by (simp add: toString_def Buffer_from_def JSON_parse_JSON_stringify)

theorem JSON_roundtrip_witness:
  "JSON_parse (toString (Buffer_from (JSON_stringify asset1))) = Inr asset1"
  using JSON_roundtrip [of asset1 100] by (simp add: asset1_def)

text \<open>
  The claim as stated, for every numeric \<open>Value\<close>, fails for \<open>Infinity\<close> (and for
  \<open>-Infinity\<close> and \<open>NaN\<close>): \<^verbatim>\<open>JSON.stringify\<close> writes \<^verbatim>\<open>null\<close> for it.
\<close>

theorem JSON_roundtrip_Infinity_counterexample:
  "JSON_parse (toString (Buffer_from (JSON_stringify
       \<lparr>ID = ''asset1'', Value = Number PosInfinity, Owner = ''Alice'', OwnerOrg = ''Org1MSP''\<rparr>)))
     = Inr \<lparr>ID = ''asset1'', Value = Null, Owner = ''Alice'', OwnerOrg = ''Org1MSP''\<rparr>
   \<and> JSON_parse (toString (Buffer_from (JSON_stringify
       \<lparr>ID = ''asset1'', Value = Number PosInfinity, Owner = ''Alice'', OwnerOrg = ''Org1MSP''\<rparr>)))
     \<noteq> Inr \<lparr>ID = ''asset1'', Value = Number PosInfinity, Owner = ''Alice'',
             OwnerOrg = ''Org1MSP''\<rparr>"
  by (simp add: toString_def Buffer_from_def JSON_parse_JSON_stringify)

section \<open>Update\<close>

lemma stored_asset_put:
  "stored_asset (ledger\<lparr>state := (state ledger)(key \<mapsto> JSON_stringify a), writeset := w\<rparr>) key
     = Some (a\<lparr>Value := json_value (Value a)\<rparr>)"
  by (simp add: stored_asset_eq parse_Asset_JSON_stringify)

lemma invoke_Update_success:
  assumes "invoke ledger mspid (Update assetId newValue) = (Inr r, ledger')"
  obtains b a where "state ledger assetId = Some b" and "b \<noteq> []" and "parse_Asset b = Some a"
    and "ledger' = ledger\<lparr>state := (state ledger)(assetId \<mapsto>
              JSON_stringify (a\<lparr>Value := Number newValue\<rparr>)), writeset := []\<rparr>"
  using assms by (auto simp add: invoke_Update split: option.splits if_splits)

text \<open>
  C6 (as amended). A successful \<open>UpdateAsset\<close> of an existing asset writes one
  thing, the record under its key with \<open>Value\<close> replaced; read back, \<open>Value\<close> is the new
  value when that is finite and \<^verbatim>\<open>null\<close> when it is \<open>NaN\<close> or an infinity, the fields
  \<open>ID\<close>, \<open>Owner\<close> and \<open>OwnerOrg\<close> are what they were, and no policy of any key has
  changed.
\<close>

theorem update_sets_value:
  assumes "invoke ledger mspid (Update assetId newValue) = (Inr r, ledger')"
  shows "\<exists>a. stored_asset ledger assetId = Some a
           \<and> stored_asset ledger' assetId = Some (a\<lparr>Value := json_value (Number newValue)\<rparr>)
           \<and> validation ledger' = validation ledger
           \<and> writeset (stub (snd (UpdateAsset
                 \<lparr>stub = ledger\<lparr>writeset := []\<rparr>, clientIdentity = mspid\<rparr> assetId newValue)))
               = [PutState assetId (Buffer_from (JSON_stringify (a\<lparr>Value := Number newValue\<rparr>)))]"
proof -
  from assms obtain b a where s: "state ledger assetId = Some b" and n: "b \<noteq> []"
    and p: "parse_Asset b = Some a"
    and l: "ledger' = ledger\<lparr>state := (state ledger)(assetId \<mapsto>
              JSON_stringify (a\<lparr>Value := Number newValue\<rparr>)), writeset := []\<rparr>"
    by (rule invoke_Update_success)
  have 1: "stored_asset ledger assetId = Some a"
    by (simp add: stored_asset_eq s p)
  have 2: "stored_asset ledger' assetId = Some (a\<lparr>Value := json_value (Number newValue)\<rparr>)"
    unfolding l by (simp add: stored_asset_put)
  have 3: "validation ledger' = validation ledger"
    by (simp add: l)
  have 4: "writeset (stub (snd (UpdateAsset
                 \<lparr>stub = ledger\<lparr>writeset := []\<rparr>, clientIdentity = mspid\<rparr> assetId newValue)))
               = [PutState assetId (Buffer_from (JSON_stringify (a\<lparr>Value := Number newValue\<rparr>)))]"
    by (simp add: UpdateAsset_result ReadAsset_result s n p Buffer_from_def)
  from 1 2 3 4 show ?thesis by blast
qed

lemma invoke_asset1_Update:
  "invoke ledger_asset1 mspid (Update ''asset1'' v)
     = (Inr Void, ledger_asset1\<lparr>state := (state ledger_asset1)(''asset1'' \<mapsto>
          JSON_stringify (asset1\<lparr>Value := Number v\<rparr>)), writeset := []\<rparr>)"
  using stored_asset1
  by (simp add: invoke_Update stored_asset_eq ledger_asset1_eq JSON_stringify_nonempty)

theorem update_sets_value_witness:
  "\<exists>a. stored_asset ledger_asset1 ''asset1'' = Some a
      \<and> stored_asset (snd (invoke ledger_asset1 ''Org1MSP'' (Update ''asset1'' (Finite 200)))) ''asset1''
          = Some (a\<lparr>Value := json_value (Number (Finite 200))\<rparr>)
      \<and> validation (snd (invoke ledger_asset1 ''Org1MSP'' (Update ''asset1'' (Finite 200))))
          = validation ledger_asset1
      \<and> writeset (stub (snd (UpdateAsset
            \<lparr>stub = ledger_asset1\<lparr>writeset := []\<rparr>, clientIdentity = ''Org1MSP''\<rparr>
            ''asset1'' (Finite 200))))
          = [PutState ''asset1'' (Buffer_from (JSON_stringify (a\<lparr>Value := Number (Finite 200)\<rparr>)))]"
proof -
  have "invoke ledger_asset1 ''Org1MSP'' (Update ''asset1'' (Finite 200))
      = (Inr Void, snd (invoke ledger_asset1 ''Org1MSP'' (Update ''asset1'' (Finite 200))))"
    by (simp add: invoke_asset1_Update)
  then show ?thesis by (rule update_sets_value)
qed

text \<open>
  The claim as stated, for every value, fails for \<open>Infinity\<close> (and for \<open>-Infinity\<close>
  and \<open>NaN\<close>): the update succeeds and the stored record's \<open>Value\<close> is \<^verbatim>\<open>null\<close>.
\<close>

theorem update_Infinity_counterexample:
  "fst (invoke ledger_asset1 ''Org1MSP'' (Update ''asset1'' PosInfinity)) = Inr Void
   \<and> map_option Value
        (stored_asset (snd (invoke ledger_asset1 ''Org1MSP'' (Update ''asset1'' PosInfinity)))
           ''asset1'') = Some Null
   \<and> map_option Value
        (stored_asset (snd (invoke ledger_asset1 ''Org1MSP'' (Update ''asset1'' PosInfinity)))
           ''asset1'') \<noteq> Some (Number PosInfinity)"
  by (simp add: invoke_asset1_Update stored_asset_put)


section \<open>Transfer\<close>

lemma consistent_reachable:
  assumes "transactions genesis cs = Inr ledger"
  shows "consistent ledger"
  using consistent_genesis assms by (rule consistent_transactions)

lemma invoke_Transfer_success:
  assumes "invoke ledger mspid (Transfer assetId newOwner newOwnerOrg) = (Inr r, ledger')"
  obtains b a where "state ledger assetId = Some b" and "b \<noteq> []" and "parse_Asset b = Some a"
    and "ledger' = ledger\<lparr>state := (state ledger)(assetId \<mapsto>
              JSON_stringify (a\<lparr>Owner := newOwner, OwnerOrg := newOwnerOrg\<rparr>)),
              validation := (validation ledger)(ID a \<mapsto> owner_policy newOwnerOrg),
              writeset := []\<rparr>"
  using assms by (auto simp add: invoke_Transfer split: option.splits if_splits)

text \<open>
  C2 (as amended). In a ledger that the contract has built, a successful
  \<open>TransferAsset\<close> of an existing asset leaves under the key the record with \<open>Owner\<close>
  and \<open>OwnerOrg\<close> set to the arguments and \<open>ID\<close> and \<open>Value\<close> as they were, and the
  key's policy is then the one built for the new organization, whatever the policy
  was before: the policy that names the new organization alone, unless the new
  organization is the string \<^verbatim>\<open>__proto__\<close>, for which it is the policy without a
  principal.
\<close>

theorem transfer_sets_owner_and_policy:
  assumes "transactions genesis cs = Inr ledger"
    and "invoke ledger mspid (Transfer assetId newOwner newOwnerOrg) = (Inr r, ledger')"
  shows "\<exists>a. stored_asset ledger assetId = Some a
           \<and> stored_asset ledger' assetId = Some (a\<lparr>Owner := newOwner, OwnerOrg := newOwnerOrg\<rparr>)
           \<and> validation ledger' assetId = Some (owner_policy newOwnerOrg)
           \<and> (newOwnerOrg \<noteq> ''__proto__'' \<longrightarrow>
                validation ledger' assetId = Some (single_org newOwnerOrg)
                \<and> (\<forall>endorsers. satisfied_by (single_org newOwnerOrg) endorsers
                       = (newOwnerOrg \<in> set endorsers)))"
proof -
  from assms(2) obtain b a where s: "state ledger assetId = Some b" and n: "b \<noteq> []"
    and p: "parse_Asset b = Some a"
    and l: "ledger' = ledger\<lparr>state := (state ledger)(assetId \<mapsto>
              JSON_stringify (a\<lparr>Owner := newOwner, OwnerOrg := newOwnerOrg\<rparr>)),
              validation := (validation ledger)(ID a \<mapsto> owner_policy newOwnerOrg),
              writeset := []\<rparr>"
    by (rule invoke_Transfer_success)
  have c: "consistent ledger"
    using assms(1) by (rule consistent_reachable)
  from consistent_stored [OF c s n] p have k: "ID a = assetId"
    by auto
  have 1: "stored_asset ledger assetId = Some a"
    by (simp add: stored_asset_eq s p)
  have 2: "stored_asset ledger' assetId = Some (a\<lparr>Owner := newOwner, OwnerOrg := newOwnerOrg\<rparr>)"
    unfolding l
    by (simp add: stored_asset_eq parse_Asset_JSON_stringify parse_Asset_json_value [OF p])
  have 3: "validation ledger' assetId = Some (owner_policy newOwnerOrg)"
    by (simp add: l k)
  have 4: "newOwnerOrg \<noteq> ''__proto__'' \<longrightarrow>
                validation ledger' assetId = Some (single_org newOwnerOrg)
                \<and> (\<forall>endorsers. satisfied_by (single_org newOwnerOrg) endorsers
                       = (newOwnerOrg \<in> set endorsers))"
    using 3 by (simp add: owner_policy_org single_org_satisfied)
  from 1 2 3 4 show ?thesis by blast
qed

lemma invoke_asset1_Transfer:
  "invoke ledger_asset1 mspid (Transfer ''asset1'' newOwner newOwnerOrg)
     = (Inr Void, ledger_asset1\<lparr>state := (state ledger_asset1)(''asset1'' \<mapsto>
          JSON_stringify (asset1\<lparr>Owner := newOwner, OwnerOrg := newOwnerOrg\<rparr>)),
          validation := (validation ledger_asset1)(''asset1'' \<mapsto> owner_policy newOwnerOrg),
          writeset := []\<rparr>)"
  using stored_asset1
  by (simp add: invoke_Transfer stored_asset_eq ledger_asset1_eq JSON_stringify_nonempty)
     (simp add: asset1_def)

theorem transfer_sets_owner_and_policy_witness:
  "\<exists>a. stored_asset ledger_asset1 ''asset1'' = Some a
      \<and> stored_asset (snd (invoke ledger_asset1 ''Org1MSP'' (Transfer ''asset1'' ''Bob'' ''Org2MSP'')))
            ''asset1'' = Some (a\<lparr>Owner := ''Bob'', OwnerOrg := ''Org2MSP''\<rparr>)
      \<and> validation (snd (invoke ledger_asset1 ''Org1MSP'' (Transfer ''asset1'' ''Bob'' ''Org2MSP'')))
            ''asset1'' = Some (single_org ''Org2MSP'')
      \<and> (\<forall>endorsers. satisfied_by (single_org ''Org2MSP'') endorsers
             = (''Org2MSP'' \<in> set endorsers))"
proof -
  have "invoke ledger_asset1 ''Org1MSP'' (Transfer ''asset1'' ''Bob'' ''Org2MSP'')
      = (Inr Void, snd (invoke ledger_asset1 ''Org1MSP'' (Transfer ''asset1'' ''Bob'' ''Org2MSP'')))"
    by (simp add: invoke_asset1_Transfer)
  from transfer_sets_owner_and_policy [OF transactions_asset1 this]
  show ?thesis by auto
qed

text \<open>
  The claim as stated, for all arguments, fails for the organization \<^verbatim>\<open>__proto__\<close>:
  the transfer succeeds, the record's \<open>OwnerOrg\<close> is that string, and the policy
  installed for the key names no organization.
\<close>

theorem transfer_proto_counterexample:
  "fst (invoke ledger_asset1 ''Org1MSP'' (Transfer ''asset1'' ''Bob'' ''__proto__'')) = Inr Void
   \<and> map_option OwnerOrg
        (stored_asset (snd (invoke ledger_asset1 ''Org1MSP'' (Transfer ''asset1'' ''Bob'' ''__proto__'')))
           ''asset1'') = Some ''__proto__''
   \<and> validation (snd (invoke ledger_asset1 ''Org1MSP'' (Transfer ''asset1'' ''Bob'' ''__proto__'')))
        ''asset1'' = Some \<lparr>n_out_of = 0, identities = []\<rparr>
   \<and> validation (snd (invoke ledger_asset1 ''Org1MSP'' (Transfer ''asset1'' ''Bob'' ''__proto__'')))
        ''asset1'' \<noteq> Some (single_org ''__proto__'')"
  by (simp add: invoke_asset1_Transfer stored_asset_eq parse_Asset_JSON_stringify
      owner_policy_proto single_org_def)

text \<open>
  C10. \<open>TransferAsset\<close> writes the data under its parameter \<open>assetId\<close> and the
  policy under the \<open>ID\<close> field of the record it has parsed. In every ledger that the
  contract has built the two keys are the same, because the stored record's \<open>ID\<close> is
  its key.
\<close>

theorem transfer_policy_key:
  assumes "TransferAsset ctx assetId newOwner newOwnerOrg = (Inr u, ctx')"
  shows "\<exists>a. stored_asset (stub ctx) assetId = Some a
           \<and> writeset (stub ctx') = writeset (stub ctx) @
               [PutState assetId
                  (Buffer_from (JSON_stringify (a\<lparr>Owner := newOwner, OwnerOrg := newOwnerOrg\<rparr>))),
                SetStateValidationParameter (ID a) (owner_policy newOwnerOrg)]
           \<and> (transactions genesis cs = Inr (stub ctx) \<longrightarrow> ID a = assetId)"
proof -
  from assms obtain b a where s: "state (stub ctx) assetId = Some b" and n: "b \<noteq> []"
    and p: "parse_Asset b = Some a"
    and c: "ctx' = ctx\<lparr>stub := (stub ctx)\<lparr>writeset := writeset (stub ctx) @
                  [PutState assetId
                     (JSON_stringify (a\<lparr>Owner := newOwner, OwnerOrg := newOwnerOrg\<rparr>)),
                   SetStateValidationParameter (ID a)
                     (owner_policy newOwnerOrg)]\<rparr>\<rparr>"
    by (auto simp add: TransferAsset_result ReadAsset_result split: option.splits if_splits)
  have 1: "stored_asset (stub ctx) assetId = Some a"
    by (simp add: stored_asset_eq s p)
  have 2: "writeset (stub ctx') = writeset (stub ctx) @
               [PutState assetId
                  (Buffer_from (JSON_stringify (a\<lparr>Owner := newOwner, OwnerOrg := newOwnerOrg\<rparr>))),
                SetStateValidationParameter (ID a) (owner_policy newOwnerOrg)]"
    by (simp add: c Buffer_from_def)
  have 3: "transactions genesis cs = Inr (stub ctx) \<longrightarrow> ID a = assetId"
  proof
    assume "transactions genesis cs = Inr (stub ctx)"
    then have "consistent (stub ctx)" by (rule consistent_reachable)
    from consistent_stored [OF this s n] p show "ID a = assetId" by auto
  qed
  from 1 2 3 show ?thesis by blast
qed

lemma TransferAsset_asset1:
  "TransferAsset ctx_owner ''asset1'' newOwner newOwnerOrg
     = (Inr (), ctx_owner\<lparr>stub := ledger_asset1\<lparr>writeset :=
          [PutState ''asset1'' (JSON_stringify (asset1\<lparr>Owner := newOwner, OwnerOrg := newOwnerOrg\<rparr>)),
           SetStateValidationParameter ''asset1'' (owner_policy newOwnerOrg)]\<rparr>\<rparr>)"
  using stored_asset1
  by (simp add: TransferAsset_result ReadAsset_result stored_asset_eq ctx_owner_def
      ledger_asset1_eq JSON_stringify_nonempty)
     (simp add: asset1_def)

theorem transfer_policy_key_witness:
  "\<exists>a. stored_asset (stub ctx_owner) ''asset1'' = Some a
      \<and> writeset (stub (snd (TransferAsset ctx_owner ''asset1'' ''Bob'' ''Org2MSP''))) =
          writeset (stub ctx_owner) @
            [PutState ''asset1''
               (Buffer_from (JSON_stringify (a\<lparr>Owner := ''Bob'', OwnerOrg := ''Org2MSP''\<rparr>))),
             SetStateValidationParameter (ID a) (single_org ''Org2MSP'')]
      \<and> ID a = ''asset1''"
proof -
  have t: "TransferAsset ctx_owner ''asset1'' ''Bob'' ''Org2MSP''
      = (Inr (), snd (TransferAsset ctx_owner ''asset1'' ''Bob'' ''Org2MSP''))"
    by (simp add: TransferAsset_asset1)
  have r: "transactions genesis [(''Org1MSP'', Create ''asset1'' (Finite 100) ''Alice'')]
      = Inr (stub ctx_owner)"
    using transactions_asset1 by (simp add: ctx_owner_def del: transactions.simps)
  have o: "owner_policy ''Org2MSP'' = single_org ''Org2MSP''"
    by (simp add: owner_policy_org)
  from transfer_policy_key [OF t, of "[(''Org1MSP'', Create ''asset1'' (Finite 100) ''Alice'')]"] r
  show ?thesis unfolding o by blast
qed

text \<open>
  A record stored under a key that is not its \<open>ID\<close> (no transaction of the contract
  produces one): the data write and the policy write go to different keys.
\<close>

lemma transfer_mismatched_record:
  "writeset (stub (snd (TransferAsset
      \<lparr>stub = genesis\<lparr>state := [''key1'' \<mapsto> JSON_stringify asset1]\<rparr>, clientIdentity = ''Org1MSP''\<rparr>
      ''key1'' ''Bob'' ''Org2MSP''))) =
     [PutState ''key1'' (JSON_stringify (asset1\<lparr>Owner := ''Bob'', OwnerOrg := ''Org2MSP''\<rparr>)),
      SetStateValidationParameter ''asset1'' (single_org ''Org2MSP'')]"
  by (simp add: TransferAsset_result ReadAsset_result JSON_stringify_nonempty
      parse_Asset_JSON_stringify genesis_def owner_policy_org)
     (simp add: asset1_def)

section \<open>The policy follows the owning organization\<close>

lemma decode_stored:
  "JSON_parse (toString (Buffer_from (JSON_stringify a))) = Inr (a\<lparr>Value := json_value (Value a)\<rparr>)"
  by (simp add: toString_def Buffer_from_def JSON_parse_JSON_stringify)

text \<open>
  C1 (as amended). In every ledger reached from the empty one by successful
  transactions of the contract, a key that holds a record has the policy that the
  contract builds for the record's \<open>OwnerOrg\<close>: the policy that names exactly that
  organization, unless \<open>OwnerOrg\<close> is the string \<^verbatim>\<open>__proto__\<close>, for which it is the
  policy without a principal. On the way, \<open>CreateAsset\<close> and \<open>TransferAsset\<close> each
  write the data and the policy of the same key in one transaction, and
  \<open>UpdateAsset\<close> writes the data only, with \<open>OwnerOrg\<close> and the policies unchanged.
\<close>

theorem policy_names_owner_org:
  assumes "transactions genesis cs = Inr ledger"
  shows "(fst (AssetExists \<lparr>stub = ledger, clientIdentity = mspid\<rparr> key) = Inr True \<longrightarrow>
            (\<exists>a. stored_asset ledger key = Some a
                \<and> validation ledger key = Some (owner_policy (OwnerOrg a))
                \<and> (OwnerOrg a \<noteq> ''__proto__'' \<longrightarrow>
                     validation ledger key = Some (single_org (OwnerOrg a)))))
       \<and> (CreateAsset \<lparr>stub = ledger, clientIdentity = mspid\<rparr> newId val owner = (Inr u1, ctx1) \<longrightarrow>
            (\<exists>b. writeset (stub ctx1) =
                    [PutState newId b, SetStateValidationParameter newId (owner_policy mspid)]
                \<and> JSON_parse (toString b) =
                    Inr \<lparr>ID = newId, Value = json_value (Number val), Owner = owner,
                          OwnerOrg = mspid\<rparr>))
       \<and> (TransferAsset \<lparr>stub = ledger, clientIdentity = mspid\<rparr> transferId newOwner newOwnerOrg
              = (Inr u2, ctx2) \<longrightarrow>
            (\<exists>a b. stored_asset ledger transferId = Some a
                \<and> writeset (stub ctx2) =
                    [PutState transferId b,
                     SetStateValidationParameter transferId (owner_policy newOwnerOrg)]
                \<and> JSON_parse (toString b) = Inr (a\<lparr>Owner := newOwner, OwnerOrg := newOwnerOrg\<rparr>)))
       \<and> (UpdateAsset \<lparr>stub = ledger, clientIdentity = mspid\<rparr> updateId newValue = (Inr u3, ctx3) \<longrightarrow>
            (\<exists>a b. stored_asset ledger updateId = Some a
                \<and> writeset (stub ctx3) = [PutState updateId b]
                \<and> JSON_parse (toString b) = Inr (a\<lparr>Value := json_value (Number newValue)\<rparr>)
                \<and> validation (commit (stub ctx3)) = validation ledger))"
proof -
  have c: "consistent ledger"
    using assms by (rule consistent_reachable)
  then have w: "writeset ledger = []"
    by (simp add: consistent_def)
  let ?ctx = "\<lparr>stub = ledger, clientIdentity = mspid\<rparr>"
  have 1: "fst (AssetExists ?ctx key) = Inr True \<longrightarrow>
            (\<exists>a. stored_asset ledger key = Some a
                \<and> validation ledger key = Some (owner_policy (OwnerOrg a))
                \<and> (OwnerOrg a \<noteq> ''__proto__'' \<longrightarrow>
                     validation ledger key = Some (single_org (OwnerOrg a))))"
  proof
    assume "fst (AssetExists ?ctx key) = Inr True"
    then obtain b where s: "state ledger key = Some b" and n: "b \<noteq> []"
      by (auto simp add: AssetExists_case split: option.splits)
    from consistent_stored [OF c s n] obtain a where "parse_Asset b = Some a"
      and "validation ledger key = Some (owner_policy (OwnerOrg a))"
      by blast
    with s show "\<exists>a. stored_asset ledger key = Some a
                \<and> validation ledger key = Some (owner_policy (OwnerOrg a))
                \<and> (OwnerOrg a \<noteq> ''__proto__'' \<longrightarrow>
                     validation ledger key = Some (single_org (OwnerOrg a)))"
      by (simp add: stored_asset_eq owner_policy_org)
  qed
  have 2: "CreateAsset ?ctx newId val owner = (Inr u1, ctx1) \<longrightarrow>
            (\<exists>b. writeset (stub ctx1) =
                    [PutState newId b, SetStateValidationParameter newId (owner_policy mspid)]
                \<and> JSON_parse (toString b) =
                    Inr \<lparr>ID = newId, Value = json_value (Number val), Owner = owner,
                          OwnerOrg = mspid\<rparr>)"
  proof
    assume "CreateAsset ?ctx newId val owner = (Inr u1, ctx1)"
    then have "writeset (stub ctx1) =
        [PutState newId (Buffer_from (JSON_stringify
           \<lparr>ID = newId, Value = Number val, Owner = owner, OwnerOrg = mspid\<rparr>)),
         SetStateValidationParameter newId (owner_policy mspid)]"
      by (auto simp add: CreateAsset_result w Buffer_from_def split: if_splits)
    moreover have "JSON_parse (toString (Buffer_from (JSON_stringify
           \<lparr>ID = newId, Value = Number val, Owner = owner, OwnerOrg = mspid\<rparr>))) =
        Inr \<lparr>ID = newId, Value = json_value (Number val), Owner = owner, OwnerOrg = mspid\<rparr>"
      by (simp add: decode_stored)
    ultimately show "\<exists>b. writeset (stub ctx1) =
                    [PutState newId b, SetStateValidationParameter newId (owner_policy mspid)]
                \<and> JSON_parse (toString b) =
                    Inr \<lparr>ID = newId, Value = json_value (Number val), Owner = owner,
                          OwnerOrg = mspid\<rparr>"
      by blast
  qed
  have 3: "TransferAsset ?ctx transferId newOwner newOwnerOrg = (Inr u2, ctx2) \<longrightarrow>
            (\<exists>a b. stored_asset ledger transferId = Some a
                \<and> writeset (stub ctx2) =
                    [PutState transferId b,
                     SetStateValidationParameter transferId (owner_policy newOwnerOrg)]
                \<and> JSON_parse (toString b) = Inr (a\<lparr>Owner := newOwner, OwnerOrg := newOwnerOrg\<rparr>))"
  proof
    assume "TransferAsset ?ctx transferId newOwner newOwnerOrg = (Inr u2, ctx2)"
    then obtain b a where s: "state ledger transferId = Some b" and n: "b \<noteq> []"
      and p: "parse_Asset b = Some a"
      and x: "ctx2 = ?ctx\<lparr>stub := ledger\<lparr>writeset := writeset ledger @
                  [PutState transferId
                     (JSON_stringify (a\<lparr>Owner := newOwner, OwnerOrg := newOwnerOrg\<rparr>)),
                   SetStateValidationParameter (ID a) (owner_policy newOwnerOrg)]\<rparr>\<rparr>"
      by (auto simp add: TransferAsset_result ReadAsset_result split: option.splits if_splits)
    from consistent_stored [OF c s n] p have k: "ID a = transferId"
      by auto
    have "stored_asset ledger transferId = Some a"
      by (simp add: stored_asset_eq s p)
    moreover have "writeset (stub ctx2) =
        [PutState transferId (Buffer_from (JSON_stringify
           (a\<lparr>Owner := newOwner, OwnerOrg := newOwnerOrg\<rparr>))),
         SetStateValidationParameter transferId (owner_policy newOwnerOrg)]"
      by (simp add: x w k Buffer_from_def)
    moreover have "JSON_parse (toString (Buffer_from (JSON_stringify
           (a\<lparr>Owner := newOwner, OwnerOrg := newOwnerOrg\<rparr>)))) =
        Inr (a\<lparr>Owner := newOwner, OwnerOrg := newOwnerOrg\<rparr>)"
      by (simp add: decode_stored parse_Asset_json_value [OF p])
    ultimately show "\<exists>a b. stored_asset ledger transferId = Some a
                \<and> writeset (stub ctx2) =
                    [PutState transferId b,
                     SetStateValidationParameter transferId (owner_policy newOwnerOrg)]
                \<and> JSON_parse (toString b) = Inr (a\<lparr>Owner := newOwner, OwnerOrg := newOwnerOrg\<rparr>)"
      by blast
  qed
  have 4: "UpdateAsset ?ctx updateId newValue = (Inr u3, ctx3) \<longrightarrow>
            (\<exists>a b. stored_asset ledger updateId = Some a
                \<and> writeset (stub ctx3) = [PutState updateId b]
                \<and> JSON_parse (toString b) = Inr (a\<lparr>Value := json_value (Number newValue)\<rparr>)
                \<and> validation (commit (stub ctx3)) = validation ledger)"
  proof
    assume "UpdateAsset ?ctx updateId newValue = (Inr u3, ctx3)"
    then obtain b a where s: "state ledger updateId = Some b" and n: "b \<noteq> []"
      and p: "parse_Asset b = Some a"
      and x: "ctx3 = ?ctx\<lparr>stub := ledger\<lparr>writeset := writeset ledger @
                  [PutState updateId (JSON_stringify (a\<lparr>Value := Number newValue\<rparr>))]\<rparr>\<rparr>"
      by (auto simp add: UpdateAsset_result ReadAsset_result split: option.splits if_splits)
    have a: "stored_asset ledger updateId = Some a"
      by (simp add: stored_asset_eq s p)
    have b: "writeset (stub ctx3) =
               [PutState updateId (Buffer_from (JSON_stringify (a\<lparr>Value := Number newValue\<rparr>)))]"
      by (simp add: x w Buffer_from_def)
    have d: "JSON_parse (toString (Buffer_from (JSON_stringify (a\<lparr>Value := Number newValue\<rparr>))))
        = Inr (a\<lparr>Value := json_value (Number newValue)\<rparr>)"
      by (simp add: decode_stored)
    have f: "validation (commit (stub ctx3)) = validation ledger"
      by (simp add: x w commit_def)
    from a b d f show "\<exists>a b. stored_asset ledger updateId = Some a
                \<and> writeset (stub ctx3) = [PutState updateId b]
                \<and> JSON_parse (toString b) = Inr (a\<lparr>Value := json_value (Number newValue)\<rparr>)
                \<and> validation (commit (stub ctx3)) = validation ledger"
      by blast
  qed
  from 1 2 3 4 show ?thesis by blast
qed

lemma CreateAsset_asset2:
  "CreateAsset ctx_owner ''asset2'' val owner
     = (Inr (), snd (CreateAsset ctx_owner ''asset2'' val owner))"
  by (simp add: CreateAsset_result AssetExists_case ctx_owner_def ledger_asset1_eq)

lemma UpdateAsset_asset1:
  "UpdateAsset ctx_owner ''asset1'' v = (Inr (), snd (UpdateAsset ctx_owner ''asset1'' v))"
  using stored_asset1
  by (simp add: UpdateAsset_result ReadAsset_result stored_asset_eq ctx_owner_def
      ledger_asset1_eq JSON_stringify_nonempty)

theorem policy_names_owner_org_witness:
  "(\<exists>a. stored_asset ledger_asset1 ''asset1'' = Some a
       \<and> validation ledger_asset1 ''asset1'' = Some (owner_policy (OwnerOrg a))
       \<and> validation ledger_asset1 ''asset1'' = Some (single_org ''Org1MSP''))
   \<and> (\<exists>b. writeset (stub (snd (CreateAsset ctx_owner ''asset2'' (Finite 7) ''Carol''))) =
           [PutState ''asset2'' b, SetStateValidationParameter ''asset2'' (owner_policy ''Org1MSP'')]
         \<and> JSON_parse (toString b) =
             Inr \<lparr>ID = ''asset2'', Value = json_value (Number (Finite 7)), Owner = ''Carol'',
                   OwnerOrg = ''Org1MSP''\<rparr>)
   \<and> (\<exists>a b. stored_asset ledger_asset1 ''asset1'' = Some a
         \<and> writeset (stub (snd (TransferAsset ctx_owner ''asset1'' ''Bob'' ''Org2MSP''))) =
             [PutState ''asset1'' b,
              SetStateValidationParameter ''asset1'' (owner_policy ''Org2MSP'')]
         \<and> JSON_parse (toString b) = Inr (a\<lparr>Owner := ''Bob'', OwnerOrg := ''Org2MSP''\<rparr>))
   \<and> (\<exists>a b. stored_asset ledger_asset1 ''asset1'' = Some a
         \<and> writeset (stub (snd (UpdateAsset ctx_owner ''asset1'' (Finite 200)))) =
             [PutState ''asset1'' b]
         \<and> JSON_parse (toString b) = Inr (a\<lparr>Value := json_value (Number (Finite 200))\<rparr>)
         \<and> validation (commit (stub (snd (UpdateAsset ctx_owner ''asset1'' (Finite 200)))))
             = validation ledger_asset1)"
proof -
  have e: "fst (AssetExists \<lparr>stub = ledger_asset1, clientIdentity = ''Org1MSP''\<rparr> ''asset1'') = Inr True"
    by (simp add: asset1_exists)
  have c: "CreateAsset \<lparr>stub = ledger_asset1, clientIdentity = ''Org1MSP''\<rparr> ''asset2'' (Finite 7) ''Carol''
      = (Inr (), snd (CreateAsset ctx_owner ''asset2'' (Finite 7) ''Carol''))"
    using CreateAsset_asset2 [of "Finite 7" "''Carol''"] by (simp add: ctx_owner_def)
  have t: "TransferAsset \<lparr>stub = ledger_asset1, clientIdentity = ''Org1MSP''\<rparr> ''asset1'' ''Bob'' ''Org2MSP''
      = (Inr (), snd (TransferAsset ctx_owner ''asset1'' ''Bob'' ''Org2MSP''))"
    using TransferAsset_asset1 [of "''Bob''" "''Org2MSP''"] by (simp add: ctx_owner_def)
  have u: "UpdateAsset \<lparr>stub = ledger_asset1, clientIdentity = ''Org1MSP''\<rparr> ''asset1'' (Finite 200)
      = (Inr (), snd (UpdateAsset ctx_owner ''asset1'' (Finite 200)))"
    using UpdateAsset_asset1 [of "Finite 200"] by (simp add: ctx_owner_def)
  have o: "OwnerOrg asset1 \<noteq> ''__proto__''" "OwnerOrg asset1 = ''Org1MSP''"
    by (simp_all add: asset1_def)
  note th = policy_names_owner_org [OF transactions_asset1,
      where mspid = "''Org1MSP''" and key = "''asset1''"
        and newId = "''asset2''" and val = "Finite 7" and owner = "''Carol''"
        and ?u1.0 = "()" and ?ctx1.0 = "snd (CreateAsset ctx_owner ''asset2'' (Finite 7) ''Carol'')"
        and transferId = "''asset1''" and newOwner = "''Bob''" and newOwnerOrg = "''Org2MSP''"
        and ?u2.0 = "()" and ?ctx2.0 = "snd (TransferAsset ctx_owner ''asset1'' ''Bob'' ''Org2MSP'')"
        and updateId = "''asset1''" and newValue = "Finite 200"
        and ?u3.0 = "()" and ?ctx3.0 = "snd (UpdateAsset ctx_owner ''asset1'' (Finite 200))"]
  from th e have 1: "\<exists>a. stored_asset ledger_asset1 ''asset1'' = Some a
       \<and> validation ledger_asset1 ''asset1'' = Some (owner_policy (OwnerOrg a))
       \<and> validation ledger_asset1 ''asset1'' = Some (single_org ''Org1MSP'')"
    using stored_asset1 o by auto
  from th c t u have "(\<exists>b. writeset (stub (snd (CreateAsset ctx_owner ''asset2'' (Finite 7) ''Carol''))) =
           [PutState ''asset2'' b, SetStateValidationParameter ''asset2'' (owner_policy ''Org1MSP'')]
         \<and> JSON_parse (toString b) =
             Inr \<lparr>ID = ''asset2'', Value = json_value (Number (Finite 7)), Owner = ''Carol'',
                   OwnerOrg = ''Org1MSP''\<rparr>)
   \<and> (\<exists>a b. stored_asset ledger_asset1 ''asset1'' = Some a
         \<and> writeset (stub (snd (TransferAsset ctx_owner ''asset1'' ''Bob'' ''Org2MSP''))) =
             [PutState ''asset1'' b,
              SetStateValidationParameter ''asset1'' (owner_policy ''Org2MSP'')]
         \<and> JSON_parse (toString b) = Inr (a\<lparr>Owner := ''Bob'', OwnerOrg := ''Org2MSP''\<rparr>))
   \<and> (\<exists>a b. stored_asset ledger_asset1 ''asset1'' = Some a
         \<and> writeset (stub (snd (UpdateAsset ctx_owner ''asset1'' (Finite 200)))) =
             [PutState ''asset1'' b]
         \<and> JSON_parse (toString b) = Inr (a\<lparr>Value := json_value (Number (Finite 200))\<rparr>)
         \<and> validation (commit (stub (snd (UpdateAsset ctx_owner ''asset1'' (Finite 200)))))
             = validation ledger_asset1)"
    by blast
  with 1 show ?thesis by blast
qed

text \<open>
  The claim as stated fails after a transfer to the organization \<^verbatim>\<open>__proto__\<close>: the
  record exists, its \<open>OwnerOrg\<close> is that string, and the key's policy names no
  organization.
\<close>

theorem policy_proto_counterexample:
  "transactions genesis
     [(''Org1MSP'', Create ''asset1'' (Finite 100) ''Alice''),
      (''Org1MSP'', Transfer ''asset1'' ''Bob'' ''__proto__'')] = Inr ledger_proto
   \<and> fst (AssetExists \<lparr>stub = ledger_proto, clientIdentity = ''Org1MSP''\<rparr> ''asset1'') = Inr True
   \<and> map_option OwnerOrg (stored_asset ledger_proto ''asset1'') = Some ''__proto__''
   \<and> validation ledger_proto ''asset1'' = Some \<lparr>n_out_of = 0, identities = []\<rparr>
   \<and> validation ledger_proto ''asset1'' \<noteq> Some (single_org ''__proto__'')"
proof -
  have l: "ledger_proto = ledger_asset1\<lparr>state := (state ledger_asset1)(''asset1'' \<mapsto>
          JSON_stringify (asset1\<lparr>Owner := ''Bob'', OwnerOrg := ''__proto__''\<rparr>)),
          validation := (validation ledger_asset1)(''asset1'' \<mapsto> owner_policy ''__proto__''),
          writeset := []\<rparr>"
    by (simp add: ledger_proto_def invoke_asset1_Transfer)
  have i: "invoke ledger_asset1 ''Org1MSP'' (Transfer ''asset1'' ''Bob'' ''__proto__'')
      = (Inr Void, ledger_proto)"
    by (simp add: ledger_proto_def invoke_asset1_Transfer)
  have 1: "transactions genesis
     [(''Org1MSP'', Create ''asset1'' (Finite 100) ''Alice''),
      (''Org1MSP'', Transfer ''asset1'' ''Bob'' ''__proto__'')] = Inr ledger_proto"
    by (simp add: invoke_asset1 i)
  have 2: "fst (AssetExists \<lparr>stub = ledger_proto, clientIdentity = ''Org1MSP''\<rparr> ''asset1'') = Inr True"
    by (simp add: l AssetExists_case JSON_stringify_nonempty)
  have 3: "map_option OwnerOrg (stored_asset ledger_proto ''asset1'') = Some ''__proto__''"
    unfolding l by (simp add: stored_asset_eq parse_Asset_JSON_stringify)
  have 4: "validation ledger_proto ''asset1'' = Some \<lparr>n_out_of = 0, identities = []\<rparr>"
    by (simp add: l owner_policy_proto)
  have 5: "validation ledger_proto ''asset1'' \<noteq> Some (single_org ''__proto__'')"
    by (simp add: 4 single_org_def)
  from 1 2 3 4 5 show ?thesis by blast
qed

section \<open>The policy builder\<close>

lemma put_property_keys: "fst ` set (put_property key v m) = insert key (fst ` set m)"
proof (induction m)
  case Nil
  show ?case by simp
next
  case (Cons x m)
  obtain k w where x: "x = (k, w)" by (cases x)
  show ?case
  proof (cases "k = key")
    case True
    then show ?thesis by (simp add: x)
  next
    case False
    then show ?thesis by (simp add: x Cons insert_commute)
  qed
qed

lemma put_property_values: "snd ` set (put_property key v m) \<subseteq> insert v (snd ` set m)"
proof (induction m)
  case Nil
  show ?case by simp
next
  case (Cons x m)
  obtain k w where x: "x = (k, w)" by (cases x)
  show ?case
  proof (cases "k = key")
    case True
    then show ?thesis by (auto simp add: x)
  next
    case False
    with Cons show ?thesis by (auto simp add: x)
  qed
qed

lemma put_property_distinct:
  "distinct (map fst m) \<Longrightarrow> distinct (map fst (put_property key v m))"
proof (induction m)
  case Nil
  then show ?case by simp
next
  case (Cons x m)
  obtain k w where x: "x = (k, w)" by (cases x)
  from Cons have d: "distinct (map fst (put_property key v m))" by simp
  from Cons.prems x have n: "k \<notin> fst ` set m" by simp
  have s: "fst ` set (put_property key v m) = insert key (fst ` set m)"
    by (rule put_property_keys)
  show ?case
  proof (cases "k = key")
    case True
    with Cons.prems x show ?thesis by simp
  next
    case False
    with n s have "k \<notin> fst ` set (put_property key v m)" by simp
    with d False x show ?thesis by simp
  qed
qed

lemma set_org_keys:
  "fst ` set (set_org org r m) = ({org} - {''__proto__''}) \<union> fst ` set m"
  by (auto simp add: set_org_def put_property_keys)

lemma set_org_roles: "snd ` set (set_org org r m) \<subseteq> insert r (snd ` set m)"
  using put_property_values [of org r m] by (auto simp add: set_org_def)

lemma set_org_distinct: "distinct (map fst m) \<Longrightarrow> distinct (map fst (set_org org r m))"
  by (simp add: set_org_def put_property_distinct)

lemma fold_set_org_keys:
  "fst ` set (fold (\<lambda>neworg m. set_org neworg r m) neworgs m)
     = (set neworgs - {''__proto__''}) \<union> fst ` set m"
  by (induction neworgs arbitrary: m) (auto simp add: set_org_keys)

lemma fold_set_org_roles:
  "snd ` set (fold (\<lambda>neworg m. set_org neworg r m) neworgs m) \<subseteq> insert r (snd ` set m)"
proof (induction neworgs arbitrary: m)
  case Nil
  show ?case by auto
next
  case (Cons x xs)
  have "snd ` set (fold (\<lambda>neworg m. set_org neworg r m) xs (set_org x r m))
      \<subseteq> insert r (snd ` set (set_org x r m))"
    by (rule Cons)
  also have "\<dots> \<subseteq> insert r (snd ` set m)"
    using set_org_roles [of x r m] by blast
  finally show ?case by simp
qed

lemma fold_set_org_distinct:
  "distinct (map fst m) \<Longrightarrow> distinct (map fst (fold (\<lambda>neworg m. set_org neworg r m) neworgs m))"
  by (induction neworgs arbitrary: m) (simp_all add: set_org_distinct)

lemma set_Object_entries: "set (Object_entries m) = set m"
  by (auto simp add: Object_entries_def)

lemma length_Object_entries: "length (Object_entries m) = length m"
  by (simp add: Object_entries_def sum_length_filter_compl)

lemma satisfied_all:
  "satisfied_by \<lparr>n_out_of = length ids, identities = ids\<rparr> endorsers
     = (fst ` set ids \<subseteq> set endorsers)"
proof -
  let ?P = "\<lambda>(org, r). org \<in> set endorsers"
  have "length ids \<le> length (filter ?P ids) \<longleftrightarrow> (\<forall>x\<in>set ids. ?P x)"
  proof
    assume l: "length ids \<le> length (filter ?P ids)"
    show "\<forall>x\<in>set ids. ?P x"
    proof (rule ccontr)
      assume "\<not> (\<forall>x\<in>set ids. ?P x)"
      then obtain x where "x \<in> set ids" and "\<not> ?P x" by blast
      then have "length (filter ?P ids) < length ids" by (rule length_filter_less)
      with l show False by simp
    qed
  next
    assume "\<forall>x\<in>set ids. ?P x"
    then have "filter ?P ids = ids" by simp
    then show "length ids \<le> length (filter ?P ids)" by simp
  qed
  then show ?thesis
    by (auto simp add: satisfied_by_def)
qed

text \<open>
  C9 (as amended). \<open>setAssetStateBasedEndorsement\<close> does not fail, whatever list of
  organizations it is given, the empty one included: it writes for the key a policy
  whose principals are the listed organizations other than the string
  \<^verbatim>\<open>__proto__\<close>, each once and at the member role, and the policy is satisfied exactly
  when every one of them has endorsed (n out of n, not one of n). For the empty list
  the policy has no principal and requires nothing.
\<close>

theorem policy_of_orgs:
  "\<exists>p. setAssetStateBasedEndorsement ctx assetId ownerOrgs =
         (Inr (), ctx\<lparr>stub := (stub ctx)\<lparr>writeset := writeset (stub ctx) @
            [SetStateValidationParameter assetId p]\<rparr>\<rparr>)
       \<and> fst ` set (identities p) = set ownerOrgs - {''__proto__''}
       \<and> snd ` set (identities p) \<subseteq> {MEMBER}
       \<and> length (identities p) = card (set ownerOrgs - {''__proto__''})
       \<and> n_out_of p = length (identities p)
       \<and> (\<forall>endorsers. satisfied_by p endorsers
             = (set ownerOrgs - {''__proto__''} \<subseteq> set endorsers))"
proof -
  let ?m = "fold (\<lambda>neworg m. set_org neworg MEMBER m) ownerOrgs []"
  let ?ids = "Object_entries ?m"
  let ?p = "\<lparr>n_out_of = length ?ids, identities = ?ids\<rparr>"
  have r: "setAssetStateBasedEndorsement ctx assetId ownerOrgs =
         (Inr (), ctx\<lparr>stub := (stub ctx)\<lparr>writeset := writeset (stub ctx) @
            [SetStateValidationParameter assetId ?p]\<rparr>\<rparr>)"
    by (simp add: setAssetStateBasedEndorsement_def addOrgs_def new_KeyEndorsementPolicy_def
        getPolicy_def listOrgs_def setStateValidationParameter_def)
  have k: "fst ` set ?ids = set ownerOrgs - {''__proto__''}"
    by (simp add: set_Object_entries fold_set_org_keys)
  have m: "snd ` set ?ids \<subseteq> {MEMBER}"
    using fold_set_org_roles [of MEMBER ownerOrgs "[]"] by (simp add: set_Object_entries)
  have d: "distinct (map fst ?m)"
    by (rule fold_set_org_distinct) simp
  have "card (set (map fst ?m)) = length (map fst ?m)"
    using d by (rule distinct_card)
  then have c: "length ?ids = card (set ownerOrgs - {''__proto__''})"
    by (simp add: length_Object_entries fold_set_org_keys)
  have s: "\<forall>endorsers. satisfied_by ?p endorsers
             = (set ownerOrgs - {''__proto__''} \<subseteq> set endorsers)"
    by (simp add: satisfied_all k)
  from r k m c s show ?thesis
    by (intro exI [of _ ?p]) simp
qed

theorem policy_of_orgs_witness:
  "\<exists>p. setAssetStateBasedEndorsement ctx_genesis ''asset1'' [''Org1MSP'', ''Org2MSP''] =
         (Inr (), ctx_genesis\<lparr>stub := (stub ctx_genesis)\<lparr>writeset := writeset (stub ctx_genesis) @
            [SetStateValidationParameter ''asset1'' p]\<rparr>\<rparr>)
       \<and> fst ` set (identities p) = {''Org1MSP'', ''Org2MSP''}
       \<and> n_out_of p = 2
       \<and> satisfied_by p [''Org2MSP'', ''Org1MSP'']
       \<and> \<not> satisfied_by p [''Org1MSP'']
       \<and> \<not> satisfied_by p [''Org3MSP'']"
proof -
  from policy_of_orgs [of ctx_genesis "''asset1''" "[''Org1MSP'', ''Org2MSP'']"]
  obtain p where r: "setAssetStateBasedEndorsement ctx_genesis ''asset1'' [''Org1MSP'', ''Org2MSP''] =
         (Inr (), ctx_genesis\<lparr>stub := (stub ctx_genesis)\<lparr>writeset := writeset (stub ctx_genesis) @
            [SetStateValidationParameter ''asset1'' p]\<rparr>\<rparr>)"
    and k: "fst ` set (identities p) = set [''Org1MSP'', ''Org2MSP''] - {''__proto__''}"
    and c: "length (identities p) = card (set [''Org1MSP'', ''Org2MSP''] - {''__proto__''})"
    and n: "n_out_of p = length (identities p)"
    and s: "\<forall>endorsers. satisfied_by p endorsers
              = (set [''Org1MSP'', ''Org2MSP''] - {''__proto__''} \<subseteq> set endorsers)"
    by blast
  have e: "set [''Org1MSP'', ''Org2MSP''] - {''__proto__''} = {''Org1MSP'', ''Org2MSP''}"
    by auto
  have 1: "fst ` set (identities p) = {''Org1MSP'', ''Org2MSP''}"
    using k e by simp
  have 2: "n_out_of p = 2"
    using n c e by simp
  have 3: "satisfied_by p [''Org2MSP'', ''Org1MSP'']"
    using s e by simp
  have 4: "\<not> satisfied_by p [''Org1MSP'']"
    using s e by simp
  have 5: "\<not> satisfied_by p [''Org3MSP'']"
    using s e by simp
  from r 1 2 3 4 5 show ?thesis by blast
qed

text \<open>
  The claim as stated asks for a failure on the empty list; the contract installs the
  empty policy and returns.
\<close>

theorem empty_orgs_counterexample:
  "setAssetStateBasedEndorsement ctx_genesis ''asset1'' [] =
     (Inr (), ctx_genesis\<lparr>stub := genesis\<lparr>writeset :=
        [SetStateValidationParameter ''asset1'' \<lparr>n_out_of = 0, identities = []\<rparr>]\<rparr>\<rparr>)"
  by (simp add: setAssetStateBasedEndorsement_def addOrgs_def new_KeyEndorsementPolicy_def
      getPolicy_def listOrgs_def Object_entries_Nil setStateValidationParameter_def
      ctx_genesis_def genesis_def)

text \<open>
  The same object map written in the order \<^verbatim>\<open>b\<close>, \<^verbatim>\<open>10\<close>, \<^verbatim>\<open>9\<close>, \<^verbatim>\<open>__proto__\<close>:
  the array indices come first in ascending order and \<^verbatim>\<open>__proto__\<close> is not kept.
\<close>

lemma listOrgs_order:
  "map_sum id listOrgs (addOrgs ''MEMBER'' [''b'', ''10'', ''9'', ''__proto__''] new_KeyEndorsementPolicy)
     = Inr [''9'', ''10'', ''b'']"
  by code_simp

section \<open>The scenario of the specification\<close>

text \<open>
  The contract run on the specification's scenario: an asset created by a client of
  one organization, updated, transferred to another organization, then deleted.
\<close>

lemma scenario:
  "(case transactions genesis
      [(''Org1'', Create ''asset1'' (Finite 100) ''Alice''),
       (''Org1'', Update ''asset1'' (Finite 200)),
       (''Org1'', Transfer ''asset1'' ''Bob'' ''Org2'')] of
      Inl e \<Rightarrow> False
    | Inr ledger \<Rightarrow>
        stored_asset ledger ''asset1''
          = Some \<lparr>ID = ''asset1'', Value = Number (Finite 200), Owner = ''Bob'', OwnerOrg = ''Org2''\<rparr>
        \<and> validation ledger ''asset1'' = Some (single_org ''Org2'')
        \<and> fst (invoke ledger ''Org2'' (Exists ''asset1'')) = Inr (Boolean True)
        \<and> fst (invoke (snd (invoke ledger ''Org2'' (Delete ''asset1''))) ''Org2'' (Exists ''asset1''))
            = Inr (Boolean False)
        \<and> fst (invoke (snd (invoke ledger ''Org2'' (Delete ''asset1''))) ''Org2'' (Read ''asset1''))
            = Inl (NotFound ''asset1''))"
  by code_simp

end
